theory Spec2Isabelle
  imports Complex_Main "HOL-Library.Sublist" "HOL-Library.Log_Nat"
begin

section \<open>Data model\<close>

text \<open>
  The controllers work on rows of a relational store reached through Prisma. Each table
  is a list of rows in storage order; a row is a record holding the columns the
  controllers read or write. Identifiers are strings, nullable columns are options
  (\<open>None\<close> is \<open>null\<close>), and points in time are milliseconds as returned by
  \<^verbatim>\<open>Date.now()\<close>. A number column holds a finite number, given by its real value; the
  sums the allocation and the relay rule compute from such columns are computed in double
  precision (section JavaScript numbers), the distances and the residual capacities of
  the proximity detection over the reals. The weight and the volume of a delivery are
  taken to be numbers that are always present; the capacities, the load and the position
  of a truck and the totals of a driver may be \<open>null\<close>. A handler takes the store and the
  fields of the request and returns its answer with the store after the call; a
  \<^verbatim>\<open>catch\<close> block is reached where a property of a missing row is read and where the
  store is handed a number that is not finite.
\<close>

type_synonym ident = string
type_synonym timestamp = int

record delivery =
  delivery_id :: ident
  delivery_courierCompanyId :: ident
  delivery_status :: string
  timeWindowStart :: timestamp
  cargoWeight :: real
  cargoVolumeLtrs :: real
  delivery_truckId :: "ident option"
  delivery_driverId :: "ident option"
  optimizedRouteId :: "ident option"

record user =
  user_id :: ident
  user_name :: string
  totalDistanceKm :: "real option"
  totalHoursWorked :: "real option"

record truck =
  truck_id :: ident
  truck_courierCompanyId :: ident
  isAvailable :: bool
  registrationStatus :: string
  ownerId :: ident
  maxWeight :: "real option"
  maxVolume :: "real option"
  truck_currentWeight :: "real option"
  truck_currentVolume :: "real option"
  currentLat :: "real option"
  currentLng :: "real option"
  co2PerKm :: "real option"

record optimizedRoute =
  route_id :: ident
  route_courierCompanyId :: ident
  route_truckId :: ident
  route_driverId :: ident
  totalDistance :: real
  totalDuration :: real
  estimatedStartTime :: timestamp
  estimatedEndTime :: timestamp
  totalPackages :: nat
  route_totalWeight :: real
  route_totalVolume :: real
  utilizationPercent :: real
  baselineDistance :: real
  carbonSaved :: real
  emptyMilesSaved :: real
  route_status :: string

record virtualHub =
  hub_id :: ident
  latitude :: real
  longitude :: real
  radius :: real

record absorptionOpportunity =
  opp_id :: ident
  route1Id :: ident
  route2Id :: ident
  overlapDistanceKm :: real
  overlapStartTime :: timestamp
  overlapEndTime :: timestamp
  nearestHubId :: ident
  overlapCenterLat :: real
  overlapCenterLng :: real
  estimatedMeetTime :: timestamp
  timeWindow :: nat
  eligibleDeliveryIds :: string
  truck1DistanceBefore :: real
  truck1DistanceAfter :: real
  truck2DistanceBefore :: real
  truck2DistanceAfter :: real
  totalDistanceSaved :: real
  potentialCarbonSaved :: real
  spaceRequiredVolume :: "real option"
  spaceRequiredWeight :: "real option"
  truck1SpaceAvailable :: real
  truck2SpaceAvailable :: real
  expiresAt :: timestamp
  opp_status :: string
  acceptedByRoute1At :: "timestamp option"
  acceptedByRoute2At :: "timestamp option"

record db =
  deliveries :: "delivery list"
  trucks :: "truck list"
  users :: "user list"
  optimizedRoutes :: "optimizedRoute list"
  absorptionOpportunities :: "absorptionOpportunity list"
  virtualHubs :: "virtualHub list"

text \<open>
  The failures the handlers answer with. \<open>ValidationError\<close> is the 400 answer
  "courierCompanyId is required", \<open>CapacityError\<close> the 400 answer "No available trucks for
  allocation", \<open>NotFound\<close> a 404 answer, \<open>InvalidArgument\<close> the 400 answer "Route ID does
  not match this opportunity", and \<open>InternalError\<close> the 500 answer of a \<^verbatim>\<open>catch\<close> block.
\<close>

datatype error = ValidationError | CapacityError | NotFound | InvalidArgument | InternalError

text \<open>
  The events a handler publishes through the socket server: a detected opportunity with
  its identifier, the two trucks, the hub and the carbon estimate (before it is rounded to
  two decimals for display), and a completed opportunity with the assigned driver's name.
\<close>

datatype event =
  AbsorptionOpportunityEvent ident ident ident ident real
  | AbsorptionCompletedEvent ident string

text \<open>
  \<^verbatim>\<open>x || 0\<close> on a nullable number: \<open>null\<close> and \<open>0\<close> are both falsy, so the value is
  the number itself or \<open>0\<close>.
\<close>

definition orZero :: "real option \<Rightarrow> real" where
  "orZero v = (case v of None \<Rightarrow> 0 | Some x \<Rightarrow> x)"

section \<open>JavaScript numbers\<close>

text \<open>
  A JavaScript number is an IEEE 754 double: a finite double, given here by its real
  value, one of the two infinities, or \<^verbatim>\<open>NaN\<close>. The two zeros are one value here; the
  handlers never divide by a zero nor read its sign.
\<close>

datatype jsnum = Num real | PosInfinity | NegInfinity | NaN

text \<open>
  Rounding of a real to the nearest double, ties to the even significand. For \<open>x > 0\<close>,
  \<open>floorLog2 x\<close> is the exponent \<open>e\<close> with \<open>2^e \<le> x < 2^(e+1)\<close>; the doubles of that
  binade lie \<open>2^(e-52)\<close> apart, and \<open>2^(-1074)\<close> apart below \<open>2^(-1022)\<close>. The rounded
  value is \<open>m\<close> times that distance with \<open>\<bar>m\<bar> \<le> 2^53\<close>; it reaches \<open>2^1024\<close>, and the
  result is an infinity, when \<open>e\<close> exceeds 1023 or \<open>e\<close> is 1023 and \<open>\<bar>m\<bar>\<close> is \<open>2^53\<close>.
\<close>

definition floorLog2 :: "real \<Rightarrow> int" where
  "floorLog2 x = (if x \<ge> 1 then bitlen \<lfloor>x\<rfloor> - 1 else - bitlen (\<lceil>1 / x\<rceil> - 1))"

definition roundHalfEven :: "real \<Rightarrow> int" where
  "roundHalfEven y =
     (let f = \<lfloor>y\<rfloor>; r = y - of_int f
      in if r < 1 / 2 then f else if r > 1 / 2 then f + 1 else if even f then f else f + 1)"

definition roundDouble :: "real \<Rightarrow> jsnum" where
  "roundDouble x =
     (if x = 0 then Num 0
      else
        let e = max (floorLog2 \<bar>x\<bar>) (- 1022);
            ulp = 2 powi (e - 52);
            m = roundHalfEven (x / ulp)
        in if e > 1023 \<or> (e = 1023 \<and> \<bar>m\<bar> = 2 ^ 53)
           then (if x > 0 then PosInfinity else NegInfinity)
           else Num (of_int m * ulp))"

text \<open>The finite double a decimal literal denotes, as a real.\<close>

definition double :: "real \<Rightarrow> real" where
  "double x = (case roundDouble x of Num y \<Rightarrow> y | _ \<Rightarrow> 0)"

text \<open>\<^verbatim>\<open>a + b\<close> on numbers.\<close>

fun jsAdd :: "jsnum \<Rightarrow> jsnum \<Rightarrow> jsnum" where
  "jsAdd (Num x) (Num y) = roundDouble (x + y)"
| "jsAdd NaN _ = NaN"
| "jsAdd _ NaN = NaN"
| "jsAdd PosInfinity NegInfinity = NaN"
| "jsAdd NegInfinity PosInfinity = NaN"
| "jsAdd PosInfinity _ = PosInfinity"
| "jsAdd _ PosInfinity = PosInfinity"
| "jsAdd NegInfinity _ = NegInfinity"
| "jsAdd _ NegInfinity = NegInfinity"

text \<open>\<^verbatim>\<open>a <= b\<close> on numbers; \<^verbatim>\<open>a >= b\<close> is \<^verbatim>\<open>b <= a\<close>. A comparison with \<^verbatim>\<open>NaN\<close> is false.\<close>

fun jsLe :: "jsnum \<Rightarrow> jsnum \<Rightarrow> bool" where
  "jsLe NaN _ = False"
| "jsLe _ NaN = False"
| "jsLe NegInfinity _ = True"
| "jsLe _ PosInfinity = True"
| "jsLe PosInfinity _ = False"
| "jsLe _ NegInfinity = False"
| "jsLe (Num x) (Num y) = (x \<le> y)"

text \<open>
  \<^verbatim>\<open>a / m\<close> and \<^verbatim>\<open>a * m\<close> for a finite number \<open>m\<close> other than 0, the only division
  and multiplication of the allocation.
\<close>

fun jsDivBy :: "jsnum \<Rightarrow> real \<Rightarrow> jsnum" where
  "jsDivBy (Num x) m = roundDouble (x / m)"
| "jsDivBy PosInfinity m = (if m > 0 then PosInfinity else NegInfinity)"
| "jsDivBy NegInfinity m = (if m > 0 then NegInfinity else PosInfinity)"
| "jsDivBy NaN m = NaN"

fun jsTimes :: "jsnum \<Rightarrow> real \<Rightarrow> jsnum" where
  "jsTimes (Num x) m = roundDouble (x * m)"
| "jsTimes PosInfinity m = (if m > 0 then PosInfinity else NegInfinity)"
| "jsTimes NegInfinity m = (if m > 0 then NegInfinity else PosInfinity)"
| "jsTimes NaN m = NaN"

text \<open>
  A number handed to the store has to be finite: the store's protocol has no notation for
  an infinity or \<^verbatim>\<open>NaN\<close>, and a write that is given one throws.
\<close>

definition finiteNumber :: "jsnum \<Rightarrow> real option" where
  "finiteNumber v = (case v of Num x \<Rightarrow> Some x | _ \<Rightarrow> None)"

section \<open>Cargo compatibility (synergyController.js)\<close>

definition CARGO_COMPATIBILITY :: "(string \<times> string list) list" where
  "CARGO_COMPATIBILITY =
    [(''FOOD'', [''PHARMA'', ''ELECTRONICS'']),
     (''PHARMA'', [''FOOD'', ''ELECTRONICS'']),
     (''ELECTRONICS'', [''FOOD'', ''PHARMA'', ''FRAGILE'']),
     (''CHEMICALS'', [''INDUSTRIAL'']),
     (''INDUSTRIAL'', [''CHEMICALS'']),
     (''FRAGILE'', [''ELECTRONICS'', ''CLOTHING'']),
     (''CLOTHING'', [''FRAGILE''])]"

text \<open>
  \<^verbatim>\<open>String.prototype.toUpperCase\<close> on ASCII text: the letters a to z (codes 97 to 122)
  move down by 32, every other character stays.
\<close>

definition toUpperCaseChar :: "char \<Rightarrow> char" where
  "toUpperCaseChar c =
     (let n = (of_char c :: nat) in if 97 \<le> n \<and> n \<le> 122 then char_of (n - 32) else c)"

definition toUpperCase :: "string \<Rightarrow> string" where
  "toUpperCase s = map toUpperCaseChar s"

text \<open>
  \<^verbatim>\<open>areCompatible(type1, type2)\<close>. A cargo type is a string or missing (\<open>None\<close>); a missing
  and an empty string are both falsy. The result is \<open>Some b\<close> for the boolean \<open>b\<close> and
  \<open>None\<close> for \<^verbatim>\<open>undefined\<close>, which \<^verbatim>\<open>compatibility && ...\<close> yields when the table has no
  entry for the first type.
\<close>

definition areCompatible :: "string option \<Rightarrow> string option \<Rightarrow> bool option" where
  "areCompatible type1 type2 =
     (case (type1, type2) of
        (Some t1, Some t2) \<Rightarrow>
          if t1 = [] \<or> t2 = [] then Some True
          else if t1 = t2 then Some True
          else (case map_of CARGO_COMPATIBILITY (toUpperCase t1) of
                  None \<Rightarrow> None
                | Some compatibility \<Rightarrow> Some (toUpperCase t2 \<in> set compatibility))
      | _ \<Rightarrow> Some True)"

text \<open>The cargo types the table has an entry for.\<close>

definition cargo_types :: "string list" where
  "cargo_types = map fst CARGO_COMPATIBILITY"

section \<open>Store access\<close>

text \<open>
  \<^verbatim>\<open>findUnique({ where: { id } })\<close> is the first row with that identifier,
  \<^verbatim>\<open>update({ where: { id }, data })\<close> rewrites the rows with that identifier.
\<close>

definition findOpportunity :: "db \<Rightarrow> ident \<Rightarrow> absorptionOpportunity option" where
  "findOpportunity d i = find (\<lambda>p. opp_id p = i) (absorptionOpportunities d)"

definition findRoute :: "db \<Rightarrow> ident \<Rightarrow> optimizedRoute option" where
  "findRoute d i = find (\<lambda>r. route_id r = i) (optimizedRoutes d)"

definition findTruck :: "db \<Rightarrow> ident \<Rightarrow> truck option" where
  "findTruck d i = find (\<lambda>t. truck_id t = i) (trucks d)"

definition findUser :: "db \<Rightarrow> ident \<Rightarrow> user option" where
  "findUser d i = find (\<lambda>u. user_id u = i) (users d)"

definition updateOpportunity ::
  "db \<Rightarrow> ident \<Rightarrow> (absorptionOpportunity \<Rightarrow> absorptionOpportunity) \<Rightarrow> db" where
  "updateOpportunity d i f =
     d\<lparr>absorptionOpportunities := map (\<lambda>p. if opp_id p = i then f p else p) (absorptionOpportunities d)\<rparr>"

text \<open>
  The nested \<^verbatim>\<open>include: { truck: { include: { owner: true } } }\<close> of a route: the route's
  truck and the truck's owner. \<open>None\<close> stands for a relation that cannot be followed,
  where the handler's property access would throw.
\<close>

definition routeTruckOwner :: "db \<Rightarrow> ident \<Rightarrow> (truck \<times> user) option" where
  "routeTruckOwner d rid =
     (case findRoute d rid of
        None \<Rightarrow> None
      | Some r \<Rightarrow>
          (case findTruck d (route_truckId r) of
             None \<Rightarrow> None
           | Some t \<Rightarrow>
               (case findUser d (ownerId t) of
                  None \<Rightarrow> None
                | Some u \<Rightarrow> Some (t, u))))"

text \<open>The ACTIVE routes of a truck and the deliveries of a route, as \<^verbatim>\<open>include\<close> loads them.\<close>

definition activeRoutes :: "db \<Rightarrow> ident \<Rightarrow> optimizedRoute list" where
  "activeRoutes d tid =
     filter (\<lambda>r. route_truckId r = tid \<and> route_status r = ''ACTIVE'') (optimizedRoutes d)"

definition deliveriesOfRoute :: "db \<Rightarrow> ident \<Rightarrow> delivery list" where
  "deliveriesOfRoute d rid = filter (\<lambda>x. optimizedRouteId x = Some rid) (deliveries d)"

section \<open>Accepting an opportunity (acceptSynergy)\<close>

text \<open>
  \<^verbatim>\<open>acceptSynergy\<close> with the request's \<^verbatim>\<open>opportunityId\<close> and \<^verbatim>\<open>routeId\<close>; \<open>now\<close> is the
  value of \<^verbatim>\<open>new Date()\<close>. The result is the answer and the store after the call.
\<close>

definition acceptSynergy ::
  "timestamp \<Rightarrow> db \<Rightarrow> ident \<Rightarrow> ident \<Rightarrow> (error + absorptionOpportunity) \<times> db" where
  "acceptSynergy now d opportunityId routeId =
     (case findOpportunity d opportunityId of
        None \<Rightarrow> (Inl NotFound, d)
      | Some opportunity \<Rightarrow>
          if route1Id opportunity = routeId then
            let updateData = (\<lambda>p. p\<lparr>opp_status :=
                                 (if opp_status opportunity = ''ACCEPTED_BY_ROUTE2''
                                  then ''BOTH_ACCEPTED'' else ''ACCEPTED_BY_ROUTE1''),
                               acceptedByRoute1At := Some now\<rparr>)
            in (Inr (updateData opportunity), updateOpportunity d opportunityId updateData)
          else if route2Id opportunity = routeId then
            let updateData = (\<lambda>p. p\<lparr>opp_status :=
                                 (if opp_status opportunity = ''ACCEPTED_BY_ROUTE1''
                                  then ''BOTH_ACCEPTED'' else ''ACCEPTED_BY_ROUTE2''),
                               acceptedByRoute2At := Some now\<rparr>)
            in (Inr (updateData opportunity), updateOpportunity d opportunityId updateData)
          else (Inl InvalidArgument, d))"

section \<open>Handshake and the driver relay rule (handleHandshake)\<close>

definition workload :: "user \<Rightarrow> jsnum" where
  "workload driver =
     jsAdd (Num (orZero (totalDistanceKm driver))) (Num (orZero (totalHoursWorked driver)))"

text \<open>
  Step 2 of \<^verbatim>\<open>handleHandshake\<close>: from the two routes' trucks and owners to
  \<^verbatim>\<open>(longHaulDriver, shortHaulDriver, masterTruckId)\<close>.
\<close>

definition driverRelayRule :: "truck \<times> user \<Rightarrow> truck \<times> user \<Rightarrow> user \<times> user \<times> ident" where
  "driverRelayRule side1 side2 =
     (let driver1 = snd side1; driver2 = snd side2;
          workload1 = workload driver1; workload2 = workload driver2
      in if jsLe workload2 workload1 then (driver1, driver2, truck_id (fst side1))
         else (driver2, driver1, truck_id (fst side2)))"

text \<open>
  The answer carries the names of the long-haul and the short-haul driver. The two writes
  of the transaction are applied together: the opportunity becomes COMPLETED and the
  deliveries whose \<^verbatim>\<open>optimizedRouteId\<close> is \<^verbatim>\<open>opportunity.route2Id\<close> are rewritten.
\<close>

definition handleHandshake ::
  "db \<Rightarrow> ident \<Rightarrow> (error + string \<times> string) \<times> db \<times> event list" where
  "handleHandshake d opportunityId =
     (case findOpportunity d opportunityId of
        None \<Rightarrow> (Inl NotFound, d, [])
      | Some opportunity \<Rightarrow>
          (case (routeTruckOwner d (route1Id opportunity), routeTruckOwner d (route2Id opportunity)) of
             (Some side1, Some side2) \<Rightarrow>
               (case driverRelayRule side1 side2 of
                  (longHaulDriver, shortHaulDriver, masterTruckId) \<Rightarrow>
                    let d1 = updateOpportunity d opportunityId (\<lambda>p. p\<lparr>opp_status := ''COMPLETED''\<rparr>);
                        d2 = d1\<lparr>deliveries :=
                               map (\<lambda>x. if optimizedRouteId x = Some (route2Id opportunity)
                                         then x\<lparr>delivery_truckId := Some masterTruckId,
                                                delivery_driverId := Some (user_id longHaulDriver),
                                                delivery_status := ''ABSORPTION_TRANSFERRED''\<rparr>
                                         else x)
                                   (deliveries d1)\<rparr>
                    in (Inr (user_name longHaulDriver, user_name shortHaulDriver), d2,
                        [AbsorptionCompletedEvent opportunityId (user_name longHaulDriver)]))
           | _ \<Rightarrow> (Inl InternalError, d, [])))"

section \<open>Greedy allocation (allocateRoutes)\<close>

text \<open>
  \<^verbatim>\<open>limit || Infinity\<close>: a \<open>null\<close> limit and a limit of \<open>0\<close> are falsy and become
  \<^verbatim>\<open>Infinity\<close>.
\<close>

definition orInfinity :: "real option \<Rightarrow> jsnum" where
  "orInfinity v =
     (case v of None \<Rightarrow> PosInfinity | Some m \<Rightarrow> if m = 0 then PosInfinity else Num m)"

text \<open>The two capacity tests \<^verbatim>\<open>fitsWeight && fitsVolume\<close> of a truck against a load.\<close>

definition fitsTruck :: "truck \<Rightarrow> jsnum \<Rightarrow> jsnum \<Rightarrow> bool" where
  "fitsTruck t w v \<longleftrightarrow>
     jsLe w (orInfinity (maxWeight t)) \<and> jsLe v (orInfinity (maxVolume t))"

record allocation =
  alloc_truck :: truck
  alloc_deliveries :: "delivery list"
  alloc_totalWeight :: jsnum
  alloc_totalVolume :: jsnum

text \<open>
  The inner \<^verbatim>\<open>while\<close> loop for one truck: state \<^verbatim>\<open>deliveryIndex\<close>, \<^verbatim>\<open>currentWeight\<close>,
  \<^verbatim>\<open>currentVolume\<close> and \<^verbatim>\<open>routeDeliveries\<close>.
\<close>

function fillTruck ::
  "truck \<Rightarrow> delivery list \<Rightarrow> nat \<Rightarrow> jsnum \<Rightarrow> jsnum \<Rightarrow> delivery list
     \<Rightarrow> nat \<times> jsnum \<times> jsnum \<times> delivery list" where
  "fillTruck truck pendingDeliveries deliveryIndex currentWeight currentVolume routeDeliveries =
     (if deliveryIndex < length pendingDeliveries then
        (let delivery = pendingDeliveries ! deliveryIndex;
             fitsWeight = jsLe (jsAdd currentWeight (Num (cargoWeight delivery)))
                               (orInfinity (maxWeight truck));
             fitsVolume = jsLe (jsAdd currentVolume (Num (cargoVolumeLtrs delivery)))
                               (orInfinity (maxVolume truck))
         in if fitsWeight \<and> fitsVolume then
              fillTruck truck pendingDeliveries (deliveryIndex + 1)
                (jsAdd currentWeight (Num (cargoWeight delivery)))
                (jsAdd currentVolume (Num (cargoVolumeLtrs delivery)))
                (routeDeliveries @ [delivery])
            else (deliveryIndex, currentWeight, currentVolume, routeDeliveries))
      else (deliveryIndex, currentWeight, currentVolume, routeDeliveries))"
  by pat_completeness auto
termination
  by (relation "measure (\<lambda>(truck, pendingDeliveries, deliveryIndex, rest). length pendingDeliveries - deliveryIndex)")
     auto

text \<open>
  The outer \<^verbatim>\<open>for\<close> loop over the trucks: state \<^verbatim>\<open>deliveryIndex\<close> and \<^verbatim>\<open>allocations\<close>.
\<close>

fun allocateLoop ::
  "truck list \<Rightarrow> delivery list \<Rightarrow> nat \<Rightarrow> allocation list \<Rightarrow> nat \<times> allocation list" where
  "allocateLoop [] pendingDeliveries deliveryIndex allocations = (deliveryIndex, allocations)"
| "allocateLoop (truck # availableTrucks) pendingDeliveries deliveryIndex allocations =
     (if deliveryIndex \<ge> length pendingDeliveries then (deliveryIndex, allocations)
      else
        (case fillTruck truck pendingDeliveries deliveryIndex (Num 0) (Num 0) [] of
           (deliveryIndex', currentWeight, currentVolume, routeDeliveries) \<Rightarrow>
             allocateLoop availableTrucks pendingDeliveries deliveryIndex'
               (if length routeDeliveries > 0
                then allocations @
                       [\<lparr>alloc_truck = truck, alloc_deliveries = routeDeliveries,
                         alloc_totalWeight = currentWeight, alloc_totalVolume = currentVolume\<rparr>]
                else allocations)))"

definition greedyAllocation :: "truck list \<Rightarrow> delivery list \<Rightarrow> allocation list" where
  "greedyAllocation availableTrucks pendingDeliveries =
     snd (allocateLoop availableTrucks pendingDeliveries 0 [])"

text \<open>
  The transaction of step 4. \<open>gen\<close> stands for the store's identifier default: the route
  created when the table holds \<open>n\<close> rows gets \<open>gen n\<close>. A route whose total weight, total
  volume or utilization is not finite cannot be written: \<open>createRoute\<close> is \<open>None\<close> then,
  the transaction is rolled back and the handler's \<^verbatim>\<open>catch\<close> block answers.
\<close>

definition createRoute ::
  "(nat \<Rightarrow> ident) \<Rightarrow> timestamp \<Rightarrow> ident \<Rightarrow> allocation \<Rightarrow> db \<Rightarrow> optimizedRoute option" where
  "createRoute gen now courierCompanyId alloc d =
     (let utilization =
            (case maxWeight (alloc_truck alloc) of
               None \<Rightarrow> Num 0
             | Some m \<Rightarrow> if m = 0 then Num 0
                         else jsTimes (jsDivBy (alloc_totalWeight alloc) m) 100)
      in case (finiteNumber (alloc_totalWeight alloc), finiteNumber (alloc_totalVolume alloc),
               finiteNumber utilization) of
           (Some w, Some v, Some u) \<Rightarrow>
             Some \<lparr>route_id = gen (length (optimizedRoutes d)),
                   route_courierCompanyId = courierCompanyId,
                   route_truckId = truck_id (alloc_truck alloc),
                   route_driverId = ownerId (alloc_truck alloc),
                   totalDistance = 0,
                   totalDuration = 60,
                   estimatedStartTime = now,
                   estimatedEndTime = now + 3600000,
                   totalPackages = length (alloc_deliveries alloc),
                   route_totalWeight = w,
                   route_totalVolume = v,
                   utilizationPercent = u,
                   baselineDistance = 0,
                   carbonSaved = 0,
                   emptyMilesSaved = 0,
                   route_status = ''ALLOCATED''\<rparr>
         | _ \<Rightarrow> None)"

fun createRoutes ::
  "(nat \<Rightarrow> ident) \<Rightarrow> timestamp \<Rightarrow> ident \<Rightarrow> allocation list \<Rightarrow> db \<Rightarrow> optimizedRoute list
     \<Rightarrow> (optimizedRoute list \<times> db) option" where
  "createRoutes gen now courierCompanyId [] d createdRoutes = Some (createdRoutes, d)"
| "createRoutes gen now courierCompanyId (alloc # allocations) d createdRoutes =
     (case createRoute gen now courierCompanyId alloc d of
        None \<Rightarrow> None
      | Some route \<Rightarrow>
          (let d1 = d\<lparr>optimizedRoutes := optimizedRoutes d @ [route]\<rparr>;
               d2 = d1\<lparr>deliveries :=
                      map (\<lambda>x. if delivery_id x \<in> set (map delivery_id (alloc_deliveries alloc))
                                then x\<lparr>delivery_truckId := Some (truck_id (alloc_truck alloc)),
                                       delivery_driverId := Some (ownerId (alloc_truck alloc)),
                                       optimizedRouteId := Some (route_id route),
                                       delivery_status := ''ALLOCATED''\<rparr>
                                else x)
                          (deliveries d1)\<rparr>;
               d3 = d2\<lparr>trucks :=
                      map (\<lambda>t. if truck_id t = truck_id (alloc_truck alloc)
                                then t\<lparr>isAvailable := False\<rparr> else t)
                          (trucks d2)\<rparr>
           in createRoutes gen now courierCompanyId allocations d3 (createdRoutes @ [route])))"

text \<open>
  The two successful answers: the 200 answer "No pending deliveries to allocate", and the
  201 answer with the number of routes, the number of pending packages and the routes.
\<close>

datatype allocateResponse = NothingToDo | Allocated nat nat "optimizedRoute list"

text \<open>
  \<^verbatim>\<open>allocateRoutes\<close> with the request's \<^verbatim>\<open>courierCompanyId\<close>, \<open>None\<close> when the body has
  none; \<^verbatim>\<open>!courierCompanyId\<close> also holds for the empty string. The pending deliveries come
  back ordered by \<^verbatim>\<open>timeWindowStart\<close>, rows with the same start in storage order.
\<close>

definition findPendingDeliveries :: "db \<Rightarrow> ident \<Rightarrow> delivery list" where
  "findPendingDeliveries d courierCompanyId =
     sort_key timeWindowStart
       (filter (\<lambda>x. delivery_courierCompanyId x = courierCompanyId
                      \<and> delivery_status x = ''PENDING'') (deliveries d))"

definition findAvailableTrucks :: "db \<Rightarrow> ident \<Rightarrow> truck list" where
  "findAvailableTrucks d courierCompanyId =
     filter (\<lambda>t. truck_courierCompanyId t = courierCompanyId \<and> isAvailable t
                    \<and> registrationStatus t = ''APPROVED'') (trucks d)"

definition allocateRoutes ::
  "(nat \<Rightarrow> ident) \<Rightarrow> timestamp \<Rightarrow> db \<Rightarrow> ident option \<Rightarrow> (error + allocateResponse) \<times> db" where
  "allocateRoutes gen now d body =
     (case body of
        None \<Rightarrow> (Inl ValidationError, d)
      | Some courierCompanyId \<Rightarrow>
          if courierCompanyId = [] then (Inl ValidationError, d)
          else
            let pendingDeliveries = findPendingDeliveries d courierCompanyId
            in if length pendingDeliveries = 0 then (Inr NothingToDo, d)
               else
                 let availableTrucks = findAvailableTrucks d courierCompanyId
                 in if length availableTrucks = 0 then (Inl CapacityError, d)
                    else
                      let allocations = greedyAllocation availableTrucks pendingDeliveries
                      in (case createRoutes gen now courierCompanyId allocations d [] of
                            None \<Rightarrow> (Inl InternalError, d)
                          | Some (results, d') \<Rightarrow>
                              (Inr (Allocated (length allocations) (length pendingDeliveries) results), d')))"

section \<open>Proximity detection (detectAbsorptionOpportunity)\<close>

text \<open>
  The distance expression of the raw SQL queries, from the reported position
  \<open>(lat, lng)\<close> to a row's position, over the reals.
\<close>

definition radians :: "real \<Rightarrow> real" where
  "radians x = x * pi / 180"

definition sqlDistance :: "real \<Rightarrow> real \<Rightarrow> real \<Rightarrow> real \<Rightarrow> real" where
  "sqlDistance lat lng rowLat rowLng =
     6371 * arccos (cos (radians lat) * cos (radians rowLat) * cos (radians rowLng - radians lng)
                    + sin (radians lat) * sin (radians rowLat))"

text \<open>
  The first query: identifier and distance of every other truck under 5 km, in storage
  order. A truck with a \<open>null\<close> coordinate has a \<open>NULL\<close> distance and is not selected.
\<close>

definition nearbyTrucksQuery :: "db \<Rightarrow> ident \<Rightarrow> real \<Rightarrow> real \<Rightarrow> (ident \<times> real) list" where
  "nearbyTrucksQuery d truckId lat lng =
     concat (map (\<lambda>t. case (currentLat t, currentLng t) of
                         (Some rowLat, Some rowLng) \<Rightarrow>
                           if truck_id t \<noteq> truckId \<and> sqlDistance lat lng rowLat rowLng < 5
                           then [(truck_id t, sqlDistance lat lng rowLat rowLng)] else []
                       | _ \<Rightarrow> [])
                 (trucks d))"

text \<open>
  The second query: the hubs under 5 km, \<^verbatim>\<open>LIMIT 1\<close>. The query has no \<^verbatim>\<open>ORDER BY\<close>, so
  the row returned is the first one in storage order.
\<close>

definition nearbyHubsQuery :: "db \<Rightarrow> real \<Rightarrow> real \<Rightarrow> virtualHub list" where
  "nearbyHubsQuery d lat lng =
     take 1 (filter (\<lambda>h. sqlDistance lat lng (latitude h) (longitude h) < 5) (virtualHubs d))"

text \<open>\<^verbatim>\<open>ids.join(',')\<close>.\<close>

fun joinComma :: "string list \<Rightarrow> string" where
  "joinComma [] = []"
| "joinComma [x] = x"
| "joinComma (x # y # ys) = x @ '','' @ joinComma (y # ys)"

text \<open>
  The \<^verbatim>\<open>for\<close> loop over the candidates. Every \<^verbatim>\<open>continue\<close> is a recursive call on the
  remaining candidates; the store changes only when an opportunity is created, which ends
  the loop. A comparison \<^verbatim>\<open>>=\<close> against a \<open>null\<close> load reads the \<open>null\<close> as \<open>0\<close>.
\<close>

fun detectLoop ::
  "(nat \<Rightarrow> ident) \<Rightarrow> timestamp \<Rightarrow> db \<Rightarrow> truck \<Rightarrow> optimizedRoute \<Rightarrow> real \<Rightarrow> real
     \<Rightarrow> (ident \<times> real) list \<Rightarrow> absorptionOpportunity option \<times> db \<times> event list" where
  "detectLoop gen now d truckA routeA lat lng [] = (None, d, [])"
| "detectLoop gen now d truckA routeA lat lng (candidate # nearbyTrucks) =
     (case findTruck d (fst candidate) of
        None \<Rightarrow> detectLoop gen now d truckA routeA lat lng nearbyTrucks
      | Some truckB \<Rightarrow>
          (case activeRoutes d (truck_id truckB) of
             [] \<Rightarrow> detectLoop gen now d truckA routeA lat lng nearbyTrucks
           | routeB # _ \<Rightarrow>
               (case nearbyHubsQuery d lat lng of
                  [] \<Rightarrow> detectLoop gen now d truckA routeA lat lng nearbyTrucks
                | hub # _ \<Rightarrow>
                    (let availableWeightA = orZero (maxWeight truckA) - orZero (truck_currentWeight truckA);
                         availableVolumeA = orZero (maxVolume truckA) - orZero (truck_currentVolume truckA);
                         canAbsorb = (availableWeightA \<ge> orZero (truck_currentWeight truckB)
                                       \<and> availableVolumeA \<ge> orZero (truck_currentVolume truckB))
                     in if \<not> canAbsorb then detectLoop gen now d truckA routeA lat lng nearbyTrucks
                        else
                          (let distanceSaved = snd candidate;
                               carbonSaved = distanceSaved *
                                 (case co2PerKm truckA of
                                    None \<Rightarrow> 0.5
                                  | Some c \<Rightarrow> if c = 0 then 0.5 else c);
                               opportunity =
                                 \<lparr>opp_id = gen (length (absorptionOpportunities d)),
                                  route1Id = route_id routeA,
                                  route2Id = route_id routeB,
                                  overlapDistanceKm = distanceSaved,
                                  overlapStartTime = now,
                                  overlapEndTime = now + 3600000,
                                  nearestHubId = hub_id hub,
                                  overlapCenterLat = lat,
                                  overlapCenterLng = lng,
                                  estimatedMeetTime = now + 1800000,
                                  timeWindow = 30,
                                  eligibleDeliveryIds =
                                    joinComma (map delivery_id (deliveriesOfRoute d (route_id routeB))),
                                  truck1DistanceBefore = 0,
                                  truck1DistanceAfter = 0,
                                  truck2DistanceBefore = 0,
                                  truck2DistanceAfter = 0,
                                  totalDistanceSaved = distanceSaved,
                                  potentialCarbonSaved = carbonSaved,
                                  spaceRequiredVolume = truck_currentVolume truckB,
                                  spaceRequiredWeight = truck_currentWeight truckB,
                                  truck1SpaceAvailable = availableVolumeA,
                                  truck2SpaceAvailable =
                                    orZero (maxVolume truckB) - orZero (truck_currentVolume truckB),
                                  expiresAt = now + 3600000,
                                  opp_status = ''PENDING'',
                                  acceptedByRoute1At = None,
                                  acceptedByRoute2At = None\<rparr>
                           in (Some opportunity,
                               d\<lparr>absorptionOpportunities := absorptionOpportunities d @ [opportunity]\<rparr>,
                               [AbsorptionOpportunityEvent (opp_id opportunity) (truck_id truckA)
                                  (truck_id truckB) (hub_id hub) carbonSaved]))))))"

definition detectAbsorptionOpportunity ::
  "(nat \<Rightarrow> ident) \<Rightarrow> timestamp \<Rightarrow> db \<Rightarrow> ident \<Rightarrow> real \<Rightarrow> real
     \<Rightarrow> absorptionOpportunity option \<times> db \<times> event list" where
  "detectAbsorptionOpportunity gen now d truckId lat lng =
     (case findTruck d truckId of
        None \<Rightarrow> (None, d, [])
      | Some truckA \<Rightarrow>
          (case activeRoutes d (truck_id truckA) of
             [] \<Rightarrow> (None, d, [])
           | routeA # _ \<Rightarrow>
               detectLoop gen now d truckA routeA lat lng (nearbyTrucksQuery d truckId lat lng)))"

section \<open>Predicates on allocation results\<close>

text \<open>
  The weights and the volumes of a list of deliveries, added from left to right in double
  precision starting from 0, as the loop adds them.
\<close>

definition sumWeights :: "delivery list \<Rightarrow> jsnum" where
  "sumWeights xs = foldl (\<lambda>s x. jsAdd s (Num (cargoWeight x))) (Num 0) xs"

definition sumVolumes :: "delivery list \<Rightarrow> jsnum" where
  "sumVolumes xs = foldl (\<lambda>s x. jsAdd s (Num (cargoVolumeLtrs x))) (Num 0) xs"

text \<open>
  \<open>s\<close> is the greedy segment of the truck \<open>t\<close> on the queue \<open>q\<close> when \<open>s\<close> is a front part
  of \<open>q\<close>, every non-empty front part of \<open>q\<close> up to \<open>s\<close> passes the two capacity tests
  with its sums, and the front part one delivery longer than \<open>s\<close>, if \<open>q\<close> has one, does
  not pass them.
\<close>

definition greedySegment :: "truck \<Rightarrow> delivery list \<Rightarrow> delivery list \<Rightarrow> bool" where
  "greedySegment t q s \<longleftrightarrow>
     length s \<le> length q \<and> s = take (length s) q \<and>
     (\<forall>n. 0 < n \<and> n \<le> length s \<longrightarrow>
        fitsTruck t (sumWeights (take n q)) (sumVolumes (take n q))) \<and>
     (length s < length q \<longrightarrow>
        \<not> fitsTruck t (sumWeights (take (Suc (length s)) q))
                      (sumVolumes (take (Suc (length s)) q)))"

text \<open>
  The allocations that a list of trucks and a list of segments, one per truck, give: one
  allocation for every truck with a non-empty segment, in the order of the trucks, with
  the sums of the segment as totals.
\<close>

definition segmentAllocations :: "truck list \<Rightarrow> delivery list list \<Rightarrow> allocation list" where
  "segmentAllocations ts segs =
     map (\<lambda>(t, s). \<lparr>alloc_truck = t, alloc_deliveries = s,
                    alloc_totalWeight = sumWeights s, alloc_totalVolume = sumVolumes s\<rparr>)
         (filter (\<lambda>(t, s). s \<noteq> []) (zip ts segs))"

text \<open>A created route carries the truck, the driver and the totals of its allocation.\<close>

definition routeOfAllocation :: "optimizedRoute \<Rightarrow> allocation \<Rightarrow> bool" where
  "routeOfAllocation r a \<longleftrightarrow>
     route_truckId r = truck_id (alloc_truck a) \<and>
     route_driverId r = ownerId (alloc_truck a) \<and>
     totalPackages r = length (alloc_deliveries a) \<and>
     Num (route_totalWeight r) = alloc_totalWeight a \<and>
     Num (route_totalVolume r) = alloc_totalVolume a"

section \<open>Sample stores\<close>

text \<open>Concrete rows and stores on which the handlers are run below.\<close>

definition freshId :: "nat \<Rightarrow> ident" where
  "freshId n = ''new-'' @ replicate n (CHR ''i'')"

definition emptyDb :: db where
  "emptyDb = \<lparr>deliveries = [], trucks = [], users = [], optimizedRoutes = [],
              absorptionOpportunities = [], virtualHubs = []\<rparr>"

definition sampleDelivery :: "ident \<Rightarrow> timestamp \<Rightarrow> real \<Rightarrow> delivery" where
  "sampleDelivery i start w =
     \<lparr>delivery_id = i, delivery_courierCompanyId = ''co-1'', delivery_status = ''PENDING'',
      timeWindowStart = start, cargoWeight = w, cargoVolumeLtrs = 1,
      delivery_truckId = None, delivery_driverId = None, optimizedRouteId = None\<rparr>"

definition sampleTruck :: "ident \<Rightarrow> ident \<Rightarrow> real option \<Rightarrow> real option \<Rightarrow> truck" where
  "sampleTruck i owner mw mv =
     \<lparr>truck_id = i, truck_courierCompanyId = ''co-1'', isAvailable = True,
      registrationStatus = ''APPROVED'', ownerId = owner, maxWeight = mw, maxVolume = mv,
      truck_currentWeight = None, truck_currentVolume = None,
      currentLat = None, currentLng = None, co2PerKm = None\<rparr>"

text \<open>
  Scenario A: three pending deliveries of weights 2, 3 and 4 and one truck with
  \<^verbatim>\<open>maxWeight\<close> 5 and no volume limit.
\<close>

definition scenarioA :: db where
  "scenarioA = emptyDb\<lparr>deliveries := [sampleDelivery ''d-1'' 10 2, sampleDelivery ''d-2'' 20 3,
                                      sampleDelivery ''d-3'' 30 4],
                        trucks := [sampleTruck ''truck-1'' ''driver-1'' (Some 5) None]\<rparr>"

definition scenarioA_route :: optimizedRoute where
  "scenarioA_route =
     \<lparr>route_id = ''new-'', route_courierCompanyId = ''co-1'', route_truckId = ''truck-1'',
      route_driverId = ''driver-1'', totalDistance = 0, totalDuration = 60,
      estimatedStartTime = 1000, estimatedEndTime = 3601000, totalPackages = 2,
      route_totalWeight = 5, route_totalVolume = 2, utilizationPercent = 100,
      baselineDistance = 0, carbonSaved = 0, emptyMilesSaved = 0,
      route_status = ''ALLOCATED''\<rparr>"

definition scenarioA_after :: db where
  "scenarioA_after =
     scenarioA\<lparr>
       deliveries :=
         [(sampleDelivery ''d-1'' 10 2)\<lparr>delivery_truckId := Some ''truck-1'',
             delivery_driverId := Some ''driver-1'', optimizedRouteId := Some ''new-'',
             delivery_status := ''ALLOCATED''\<rparr>,
          (sampleDelivery ''d-2'' 20 3)\<lparr>delivery_truckId := Some ''truck-1'',
             delivery_driverId := Some ''driver-1'', optimizedRouteId := Some ''new-'',
             delivery_status := ''ALLOCATED''\<rparr>,
          sampleDelivery ''d-3'' 30 4],
       trucks := [(sampleTruck ''truck-1'' ''driver-1'' (Some 5) None)\<lparr>isAvailable := False\<rparr>],
       optimizedRoutes := [scenarioA_route]\<rparr>"

text \<open>A store with one pending delivery of weight 5 and one truck whose \<^verbatim>\<open>maxWeight\<close> is 0.\<close>

definition zeroLimitDb :: db where
  "zeroLimitDb = emptyDb\<lparr>deliveries := [sampleDelivery ''d-9'' 10 5],
                          trucks := [sampleTruck ''truck-0'' ''driver-0'' (Some 0) None]\<rparr>"

definition zeroLimitRoute :: optimizedRoute where
  "zeroLimitRoute =
     \<lparr>route_id = ''new-'', route_courierCompanyId = ''co-1'', route_truckId = ''truck-0'',
      route_driverId = ''driver-0'', totalDistance = 0, totalDuration = 60,
      estimatedStartTime = 1000, estimatedEndTime = 3601000, totalPackages = 1,
      route_totalWeight = 5, route_totalVolume = 1, utilizationPercent = 0,
      baselineDistance = 0, carbonSaved = 0, emptyMilesSaved = 0,
      route_status = ''ALLOCATED''\<rparr>"

text \<open>
  A truck whose \<^verbatim>\<open>maxWeight\<close> is the double 0.7999999999999999 and two deliveries whose
  weights are the doubles 0.1 and 0.7.
\<close>

definition roundingTruck :: truck where
  "roundingTruck = sampleTruck ''truck-r'' ''driver-r'' (Some (double (7999999999999999 / 10 ^ 16))) None"

definition tenthDelivery :: delivery where
  "tenthDelivery = sampleDelivery ''d-a'' 10 (double (1 / 10))"

definition seventhsDelivery :: delivery where
  "seventhsDelivery = sampleDelivery ''d-b'' 20 (double (7 / 10))"

text \<open>A store with pending deliveries and a truck whose registration is not approved.\<close>

definition noTruckDb :: db where
  "noTruckDb = scenarioA\<lparr>trucks :=
     [(sampleTruck ''truck-1'' ''driver-1'' (Some 5) None)\<lparr>registrationStatus := ''PENDING''\<rparr>]\<rparr>"

definition sampleOpportunity :: "ident \<Rightarrow> string \<Rightarrow> absorptionOpportunity" where
  "sampleOpportunity i st =
     \<lparr>opp_id = i, route1Id = ''route-1'', route2Id = ''route-2'',
      overlapDistanceKm = 2, overlapStartTime = 0, overlapEndTime = 3600000,
      nearestHubId = ''hub-1'', overlapCenterLat = 0, overlapCenterLng = 0,
      estimatedMeetTime = 1800000, timeWindow = 30, eligibleDeliveryIds = ''d-3'',
      truck1DistanceBefore = 0, truck1DistanceAfter = 0, truck2DistanceBefore = 0,
      truck2DistanceAfter = 0, totalDistanceSaved = 2, potentialCarbonSaved = 1,
      spaceRequiredVolume = Some 4, spaceRequiredWeight = Some 8,
      truck1SpaceAvailable = 10, truck2SpaceAvailable = 6, expiresAt = 3600000,
      opp_status = st, acceptedByRoute1At = None, acceptedByRoute2At = None\<rparr>"

definition acceptDb :: "string \<Rightarrow> db" where
  "acceptDb st = emptyDb\<lparr>absorptionOpportunities := [sampleOpportunity ''opp-1'' st]\<rparr>"

definition sampleUser :: "ident \<Rightarrow> string \<Rightarrow> real option \<Rightarrow> real option \<Rightarrow> user" where
  "sampleUser i n km hours =
     \<lparr>user_id = i, user_name = n, totalDistanceKm = km, totalHoursWorked = hours\<rparr>"

definition sampleRoute :: "ident \<Rightarrow> ident \<Rightarrow> ident \<Rightarrow> optimizedRoute" where
  "sampleRoute i tid did =
     \<lparr>route_id = i, route_courierCompanyId = ''co-1'', route_truckId = tid,
      route_driverId = did, totalDistance = 0, totalDuration = 60,
      estimatedStartTime = 0, estimatedEndTime = 3600000, totalPackages = 1,
      route_totalWeight = 1, route_totalVolume = 1, utilizationPercent = 0,
      baselineDistance = 0, carbonSaved = 0, emptyMilesSaved = 0,
      route_status = ''ACTIVE''\<rparr>"

definition routedDelivery :: "ident \<Rightarrow> ident \<Rightarrow> ident \<Rightarrow> ident \<Rightarrow> delivery" where
  "routedDelivery i rid tid did =
     (sampleDelivery i 10 1)\<lparr>delivery_status := ''IN_TRANSIT'', delivery_truckId := Some tid,
                             delivery_driverId := Some did, optimizedRouteId := Some rid\<rparr>"

text \<open>
  A store for the handshake: route-1 on truck-1 of the driver Asha, route-2 on truck-2 of
  the driver Bala, one delivery on each route, and an opportunity between the two routes.
  The two arguments are the distances driven by Asha and by Bala.
\<close>

definition handshakeDb :: "real \<Rightarrow> real \<Rightarrow> db" where
  "handshakeDb w1 w2 =
     emptyDb\<lparr>deliveries := [routedDelivery ''d-1'' ''route-1'' ''truck-1'' ''driver-1'',
                             routedDelivery ''d-2'' ''route-2'' ''truck-2'' ''driver-2''],
             trucks := [sampleTruck ''truck-1'' ''driver-1'' (Some 10) (Some 10),
                        sampleTruck ''truck-2'' ''driver-2'' (Some 10) (Some 10)],
             users := [sampleUser ''driver-1'' ''Asha'' (Some w1) None,
                       sampleUser ''driver-2'' ''Bala'' (Some w2) None],
             optimizedRoutes := [sampleRoute ''route-1'' ''truck-1'' ''driver-1'',
                                 sampleRoute ''route-2'' ''truck-2'' ''driver-2''],
             absorptionOpportunities := [sampleOpportunity ''opp-1'' ''BOTH_ACCEPTED'']\<rparr>"

text \<open>
  A store for the detection: truck-A at latitude 0 and longitude 0 with residual capacity
  10 and 10, truck-B one hundredth of a degree to the east with a load of 8 and 4, both on
  an ACTIVE route, and two hubs on the equator, the first stored three hundredths of a
  degree to the east and the second one hundredth.
\<close>

definition hubFar :: virtualHub where
  "hubFar = \<lparr>hub_id = ''hub-far'', latitude = 0, longitude = 3 / 100, radius = 1\<rparr>"

definition hubNear :: virtualHub where
  "hubNear = \<lparr>hub_id = ''hub-near'', latitude = 0, longitude = 1 / 100, radius = 1\<rparr>"

definition truckA :: truck where
  "truckA = (sampleTruck ''truck-A'' ''driver-1'' (Some 10) (Some 10))\<lparr>
               truck_currentWeight := Some 0, truck_currentVolume := Some 0,
               currentLat := Some 0, currentLng := Some 0\<rparr>"

definition truckB :: truck where
  "truckB = (sampleTruck ''truck-B'' ''driver-2'' (Some 10) (Some 10))\<lparr>
               truck_currentWeight := Some 8, truck_currentVolume := Some 4,
               currentLat := Some 0, currentLng := Some (1 / 100)\<rparr>"

definition detectDb :: "virtualHub list \<Rightarrow> db" where
  "detectDb hubs =
     emptyDb\<lparr>deliveries := [routedDelivery ''d-1'' ''route-A'' ''truck-A'' ''driver-1'',
                             routedDelivery ''d-2'' ''route-B'' ''truck-B'' ''driver-2''],
             trucks := [truckA, truckB],
             optimizedRoutes := [sampleRoute ''route-A'' ''truck-A'' ''driver-1'',
                                 sampleRoute ''route-B'' ''truck-B'' ''driver-2''],
             virtualHubs := hubs\<rparr>"

section \<open>Properties of the cargo compatibility check\<close>

lemma areCompatible_missing:
  "type1 = None \<or> type1 = Some [] \<or> type2 = None \<or> type2 = Some [] \<Longrightarrow>
     areCompatible type1 type2 = Some True"
  by (auto simp: areCompatible_def split: option.splits)

lemma areCompatible_identical: "areCompatible t t = Some True"
  by (auto simp: areCompatible_def split: option.splits)

text \<open>
  Claim C6. The claim says that \<^verbatim>\<open>areCompatible\<close> returns true when a type is missing or
  empty, and when the two types are the same cargo type whatever their letter case, such
  as "food" and "FOOD". The first two hold (\<open>areCompatible_missing\<close>,
  \<open>areCompatible_identical\<close>). For "food" and "FOOD" the function returns false: the
  identity test compares the strings as given, and the table entry of FOOD does not list
  FOOD itself.
\<close>

theorem areCompatible_food_FOOD:
  "areCompatible (Some ''food'') (Some ''FOOD'') = Some False"
  by code_simp

lemma table_pairs_symmetric:
  "list_all (\<lambda>X. list_all (\<lambda>Y. areCompatible (Some X) (Some Y) = areCompatible (Some Y) (Some X))
                    cargo_types) cargo_types"
  by code_simp

text \<open>
  Claim C7, as stated: two distinct cargo types of the table exist on which
  \<^verbatim>\<open>areCompatible\<close> gives different answers in the two directions. No such pair exists.
\<close>

theorem table_asymmetry_counterexample:
  "\<not> (\<exists>X \<in> set cargo_types. \<exists>Y \<in> set cargo_types. X \<noteq> Y \<and>
        areCompatible (Some X) (Some Y) \<noteq> areCompatible (Some Y) (Some X))"
  using table_pairs_symmetric by (simp add: list_all_iff)

text \<open>
  Claim C7, amended: the lookup is directional, it reads the entry of the first type only
  and answers \<^verbatim>\<open>undefined\<close> when the first type has none; the authored table is symmetric,
  so on any two cargo types of the table the two directions give the same answer.
\<close>

theorem table_lookup_directional_symmetric:
  "(X \<noteq> [] \<and> Y \<noteq> [] \<and> X \<noteq> Y \<longrightarrow>
      areCompatible (Some X) (Some Y) =
        map_option (\<lambda>compatibility. toUpperCase Y \<in> set compatibility)
          (map_of CARGO_COMPATIBILITY (toUpperCase X))) \<and>
   (X \<in> set cargo_types \<and> Y \<in> set cargo_types \<longrightarrow>
      areCompatible (Some X) (Some Y) = areCompatible (Some Y) (Some X))"
proof (intro conjI impI)
  assume "X \<noteq> [] \<and> Y \<noteq> [] \<and> X \<noteq> Y"
  then show "areCompatible (Some X) (Some Y) =
        map_option (\<lambda>compatibility. toUpperCase Y \<in> set compatibility)
          (map_of CARGO_COMPATIBILITY (toUpperCase X))"
    by (simp add: areCompatible_def split: option.splits)
next
  assume "X \<in> set cargo_types \<and> Y \<in> set cargo_types"
  then show "areCompatible (Some X) (Some Y) = areCompatible (Some Y) (Some X)"
    using table_pairs_symmetric by (simp add: list_all_iff)
qed

lemma sample_types_in_table:
  "''FRAGILE'' \<in> set cargo_types" "''CLOTHING'' \<in> set cargo_types"
  by code_simp+

lemma sample_types_compatible:
  "areCompatible (Some ''FRAGILE'') (Some ''CLOTHING'') = Some True"
  "areCompatible (Some ''CLOTHING'') (Some ''FRAGILE'') = Some True"
  "map_option (\<lambda>compatibility. toUpperCase ''CLOTHING'' \<in> set compatibility)
          (map_of CARGO_COMPATIBILITY (toUpperCase ''FRAGILE'')) = Some True"
  by code_simp+

theorem table_lookup_directional_symmetric_witness:
  "''FRAGILE'' \<noteq> [] \<and> ''CLOTHING'' \<noteq> [] \<and> ''FRAGILE'' \<noteq> ''CLOTHING'' \<and>
   ''FRAGILE'' \<in> set cargo_types \<and> ''CLOTHING'' \<in> set cargo_types \<and>
   areCompatible (Some ''FRAGILE'') (Some ''CLOTHING'') = Some True \<and>
   areCompatible (Some ''CLOTHING'') (Some ''FRAGILE'') = Some True"
  using table_lookup_directional_symmetric[of "''FRAGILE''" "''CLOTHING''"]
  by (simp add: sample_types_in_table sample_types_compatible)

section \<open>Properties of acceptSynergy\<close>

lemma find_update_same:
  assumes "\<And>p. opp_id (f p) = opp_id p"
  shows "find (\<lambda>p. opp_id p = i) (map (\<lambda>p. if opp_id p = i then f p else p) xs)
         = map_option f (find (\<lambda>p. opp_id p = i) xs)"
  by (induction xs) (simp_all add: assms)

lemma findOpportunity_update:
  assumes "\<And>p. opp_id (f p) = opp_id p"
  shows "findOpportunity (updateOpportunity d i f) i = map_option f (findOpportunity d i)"
  by (simp add: findOpportunity_def updateOpportunity_def find_update_same assms)

lemma accept_missing:
  "findOpportunity d oid = None \<Longrightarrow> acceptSynergy now d oid rid = (Inl NotFound, d)"
  by (simp add: acceptSynergy_def)

lemma accept_route1:
  fixes now :: timestamp
  assumes "findOpportunity d oid = Some opp" "route1Id opp = rid"
  defines "opp' \<equiv> opp\<lparr>opp_status := (if opp_status opp = ''ACCEPTED_BY_ROUTE2''
                                      then ''BOTH_ACCEPTED'' else ''ACCEPTED_BY_ROUTE1''),
                       acceptedByRoute1At := Some now\<rparr>"
  shows "fst (acceptSynergy now d oid rid) = Inr opp'"
    and "findOpportunity (snd (acceptSynergy now d oid rid)) oid = Some opp'"
  using assms by (simp_all add: acceptSynergy_def Let_def findOpportunity_update)

lemma accept_route2:
  fixes now :: timestamp
  assumes "findOpportunity d oid = Some opp" "route1Id opp \<noteq> rid" "route2Id opp = rid"
  defines "opp' \<equiv> opp\<lparr>opp_status := (if opp_status opp = ''ACCEPTED_BY_ROUTE1''
                                      then ''BOTH_ACCEPTED'' else ''ACCEPTED_BY_ROUTE2''),
                       acceptedByRoute2At := Some now\<rparr>"
  shows "fst (acceptSynergy now d oid rid) = Inr opp'"
    and "findOpportunity (snd (acceptSynergy now d oid rid)) oid = Some opp'"
  using assms by (simp_all add: acceptSynergy_def Let_def findOpportunity_update)

lemma accept_neither:
  "findOpportunity d oid = Some opp \<Longrightarrow> route1Id opp \<noteq> rid \<Longrightarrow> route2Id opp \<noteq> rid \<Longrightarrow>
     acceptSynergy now d oid rid = (Inl InvalidArgument, d)"
  by (simp add: acceptSynergy_def)

lemma find_acceptDb:
  "findOpportunity (acceptDb st) ''opp-1'' = Some (sampleOpportunity ''opp-1'' st)"
  by (simp add: findOpportunity_def acceptDb_def emptyDb_def sampleOpportunity_def)

lemma find_acceptDb_none: "findOpportunity (acceptDb st) ''opp-2'' = None"
  by (simp add: findOpportunity_def acceptDb_def emptyDb_def sampleOpportunity_def)

text \<open>
  Claim C3. \<^verbatim>\<open>accept(opportunityId, routeId)\<close> follows the acceptance table. A missing
  opportunity gives NotFound and leaves the store as it is. When \<^verbatim>\<open>routeId\<close> is route1, the
  answer and the stored row are the old row with the status BOTH_ACCEPTED if it was
  ACCEPTED_BY_ROUTE2 and ACCEPTED_BY_ROUTE1 otherwise, and with \<^verbatim>\<open>acceptedByRoute1At\<close>
  stamped. When \<^verbatim>\<open>routeId\<close> is route2 (and not route1, which the handler tests first) the
  same holds with the two sides exchanged. A \<^verbatim>\<open>routeId\<close> that is neither route gives
  InvalidArgument and leaves the store as it is.
\<close>

theorem acceptSynergy_state_table:
  "(findOpportunity d oid = None \<longrightarrow> acceptSynergy now d oid rid = (Inl NotFound, d)) \<and>
   (findOpportunity d oid = Some opp \<longrightarrow>
      (route1Id opp = rid \<longrightarrow>
         fst (acceptSynergy now d oid rid) =
           Inr (opp\<lparr>opp_status := (if opp_status opp = ''ACCEPTED_BY_ROUTE2''
                                    then ''BOTH_ACCEPTED'' else ''ACCEPTED_BY_ROUTE1''),
                     acceptedByRoute1At := Some now\<rparr>) \<and>
         map_option Inr (findOpportunity (snd (acceptSynergy now d oid rid)) oid) =
           Some (fst (acceptSynergy now d oid rid))) \<and>
      (route1Id opp \<noteq> rid \<and> route2Id opp = rid \<longrightarrow>
         fst (acceptSynergy now d oid rid) =
           Inr (opp\<lparr>opp_status := (if opp_status opp = ''ACCEPTED_BY_ROUTE1''
                                    then ''BOTH_ACCEPTED'' else ''ACCEPTED_BY_ROUTE2''),
                     acceptedByRoute2At := Some now\<rparr>) \<and>
         map_option Inr (findOpportunity (snd (acceptSynergy now d oid rid)) oid) =
           Some (fst (acceptSynergy now d oid rid))) \<and>
      (route1Id opp \<noteq> rid \<and> route2Id opp \<noteq> rid \<longrightarrow>
         acceptSynergy now d oid rid = (Inl InvalidArgument, d)))"
  using accept_missing[of d oid now rid] accept_route1[of d oid opp rid now]
        accept_route2[of d oid opp rid now] accept_neither[of d oid opp rid now]
  by simp

theorem acceptSynergy_state_table_witness:
  "findOpportunity (acceptDb ''PENDING'') ''opp-2'' = None \<and>
   acceptSynergy 7 (acceptDb ''PENDING'') ''opp-2'' ''route-1'' = (Inl NotFound, acceptDb ''PENDING'') \<and>
   findOpportunity (acceptDb ''PENDING'') ''opp-1'' = Some (sampleOpportunity ''opp-1'' ''PENDING'') \<and>
   route1Id (sampleOpportunity ''opp-1'' ''PENDING'') = ''route-1'' \<and>
   route2Id (sampleOpportunity ''opp-1'' ''PENDING'') = ''route-2'' \<and>
   map_sum id opp_status (fst (acceptSynergy 7 (acceptDb ''PENDING'') ''opp-1'' ''route-1''))
     = Inr ''ACCEPTED_BY_ROUTE1'' \<and>
   map_sum id opp_status (fst (acceptSynergy 7 (acceptDb ''ACCEPTED_BY_ROUTE2'') ''opp-1'' ''route-1''))
     = Inr ''BOTH_ACCEPTED'' \<and>
   map_sum id opp_status (fst (acceptSynergy 7 (acceptDb ''ACCEPTED_BY_ROUTE1'') ''opp-1'' ''route-1''))
     = Inr ''ACCEPTED_BY_ROUTE1'' \<and>
   map_sum id acceptedByRoute1At (fst (acceptSynergy 7 (acceptDb ''PENDING'') ''opp-1'' ''route-1''))
     = Inr (Some 7) \<and>
   map_sum id opp_status (fst (acceptSynergy 7 (acceptDb ''PENDING'') ''opp-1'' ''route-2''))
     = Inr ''ACCEPTED_BY_ROUTE2'' \<and>
   map_sum id opp_status (fst (acceptSynergy 7 (acceptDb ''ACCEPTED_BY_ROUTE1'') ''opp-1'' ''route-2''))
     = Inr ''BOTH_ACCEPTED'' \<and>
   map_sum id acceptedByRoute2At (fst (acceptSynergy 7 (acceptDb ''PENDING'') ''opp-1'' ''route-2''))
     = Inr (Some 7) \<and>
   acceptSynergy 7 (acceptDb ''PENDING'') ''opp-1'' ''route-3''
     = (Inl InvalidArgument, acceptDb ''PENDING'')"
  using acceptSynergy_state_table[of "acceptDb ''PENDING''" "''opp-2''" 7 "''route-1''"
          "sampleOpportunity ''opp-1'' ''PENDING''"]
        acceptSynergy_state_table[of "acceptDb ''PENDING''" "''opp-1''" 7 "''route-1''"
          "sampleOpportunity ''opp-1'' ''PENDING''"]
        acceptSynergy_state_table[of "acceptDb ''ACCEPTED_BY_ROUTE2''" "''opp-1''" 7 "''route-1''"
          "sampleOpportunity ''opp-1'' ''ACCEPTED_BY_ROUTE2''"]
        acceptSynergy_state_table[of "acceptDb ''ACCEPTED_BY_ROUTE1''" "''opp-1''" 7 "''route-1''"
          "sampleOpportunity ''opp-1'' ''ACCEPTED_BY_ROUTE1''"]
        acceptSynergy_state_table[of "acceptDb ''PENDING''" "''opp-1''" 7 "''route-2''"
          "sampleOpportunity ''opp-1'' ''PENDING''"]
        acceptSynergy_state_table[of "acceptDb ''ACCEPTED_BY_ROUTE1''" "''opp-1''" 7 "''route-2''"
          "sampleOpportunity ''opp-1'' ''ACCEPTED_BY_ROUTE1''"]
        acceptSynergy_state_table[of "acceptDb ''PENDING''" "''opp-1''" 7 "''route-3''"
          "sampleOpportunity ''opp-1'' ''PENDING''"]
  by (simp add: find_acceptDb find_acceptDb_none sampleOpportunity_def)

text \<open>
  Claim C10. \<^verbatim>\<open>accept\<close> looks at the current status only to tell the other side's
  acceptance apart. For an opportunity in any status other than ACCEPTED_BY_ROUTE2,
  accepting with route1 sets the status, in the answer and in the store, to
  ACCEPTED_BY_ROUTE1; for any status other than ACCEPTED_BY_ROUTE1, accepting with route2
  sets it to ACCEPTED_BY_ROUTE2. So BOTH_ACCEPTED, COMPLETED and EXPIRED are not kept.
\<close>

theorem acceptSynergy_overwrites_any_status:
  "findOpportunity d oid = Some opp \<longrightarrow>
     (route1Id opp = rid \<and> opp_status opp \<noteq> ''ACCEPTED_BY_ROUTE2'' \<longrightarrow>
        map_sum id opp_status (fst (acceptSynergy now d oid rid)) = Inr ''ACCEPTED_BY_ROUTE1'' \<and>
        map_option opp_status (findOpportunity (snd (acceptSynergy now d oid rid)) oid)
          = Some ''ACCEPTED_BY_ROUTE1'') \<and>
     (route1Id opp \<noteq> rid \<and> route2Id opp = rid \<and> opp_status opp \<noteq> ''ACCEPTED_BY_ROUTE1'' \<longrightarrow>
        map_sum id opp_status (fst (acceptSynergy now d oid rid)) = Inr ''ACCEPTED_BY_ROUTE2'' \<and>
        map_option opp_status (findOpportunity (snd (acceptSynergy now d oid rid)) oid)
          = Some ''ACCEPTED_BY_ROUTE2'')"
  using accept_route1[of d oid opp rid now] accept_route2[of d oid opp rid now]
  by simp

theorem acceptSynergy_overwrites_any_status_witness:
  "findOpportunity (acceptDb ''BOTH_ACCEPTED'') ''opp-1''
     = Some (sampleOpportunity ''opp-1'' ''BOTH_ACCEPTED'') \<and>
   route1Id (sampleOpportunity ''opp-1'' ''BOTH_ACCEPTED'') = ''route-1'' \<and>
   opp_status (sampleOpportunity ''opp-1'' ''BOTH_ACCEPTED'') \<noteq> ''ACCEPTED_BY_ROUTE2'' \<and>
   map_option opp_status
     (findOpportunity (snd (acceptSynergy 7 (acceptDb ''BOTH_ACCEPTED'') ''opp-1'' ''route-1'')) ''opp-1'')
     = Some ''ACCEPTED_BY_ROUTE1'' \<and>
   map_option opp_status
     (findOpportunity (snd (acceptSynergy 7 (acceptDb ''COMPLETED'') ''opp-1'' ''route-1'')) ''opp-1'')
     = Some ''ACCEPTED_BY_ROUTE1'' \<and>
   map_option opp_status
     (findOpportunity (snd (acceptSynergy 7 (acceptDb ''EXPIRED'') ''opp-1'' ''route-1'')) ''opp-1'')
     = Some ''ACCEPTED_BY_ROUTE1'' \<and>
   route1Id (sampleOpportunity ''opp-1'' ''COMPLETED'') \<noteq> ''route-2'' \<and>
   route2Id (sampleOpportunity ''opp-1'' ''COMPLETED'') = ''route-2'' \<and>
   opp_status (sampleOpportunity ''opp-1'' ''COMPLETED'') \<noteq> ''ACCEPTED_BY_ROUTE1'' \<and>
   map_option opp_status
     (findOpportunity (snd (acceptSynergy 7 (acceptDb ''BOTH_ACCEPTED'') ''opp-1'' ''route-2'')) ''opp-1'')
     = Some ''ACCEPTED_BY_ROUTE2'' \<and>
   map_option opp_status
     (findOpportunity (snd (acceptSynergy 7 (acceptDb ''COMPLETED'') ''opp-1'' ''route-2'')) ''opp-1'')
     = Some ''ACCEPTED_BY_ROUTE2'' \<and>
   map_option opp_status
     (findOpportunity (snd (acceptSynergy 7 (acceptDb ''EXPIRED'') ''opp-1'' ''route-2'')) ''opp-1'')
     = Some ''ACCEPTED_BY_ROUTE2''"
  using acceptSynergy_overwrites_any_status[of "acceptDb ''BOTH_ACCEPTED''" "''opp-1''"
          "sampleOpportunity ''opp-1'' ''BOTH_ACCEPTED''" "''route-1''" 7]
        acceptSynergy_overwrites_any_status[of "acceptDb ''COMPLETED''" "''opp-1''"
          "sampleOpportunity ''opp-1'' ''COMPLETED''" "''route-1''" 7]
        acceptSynergy_overwrites_any_status[of "acceptDb ''EXPIRED''" "''opp-1''"
          "sampleOpportunity ''opp-1'' ''EXPIRED''" "''route-1''" 7]
        acceptSynergy_overwrites_any_status[of "acceptDb ''BOTH_ACCEPTED''" "''opp-1''"
          "sampleOpportunity ''opp-1'' ''BOTH_ACCEPTED''" "''route-2''" 7]
        acceptSynergy_overwrites_any_status[of "acceptDb ''COMPLETED''" "''opp-1''"
          "sampleOpportunity ''opp-1'' ''COMPLETED''" "''route-2''" 7]
        acceptSynergy_overwrites_any_status[of "acceptDb ''EXPIRED''" "''opp-1''"
          "sampleOpportunity ''opp-1'' ''EXPIRED''" "''route-2''" 7]
  by (simp add: find_acceptDb sampleOpportunity_def)

section \<open>Properties of the allocation\<close>

declare fillTruck.simps [simp del]

lemma fillTruck_done:
  "\<not> i < length p \<Longrightarrow> fillTruck t p i cw cv rd = (i, cw, cv, rd)"
  by (subst fillTruck.simps) simp

lemma fillTruck_accept:
  "i < length p \<Longrightarrow>
   fitsTruck t (jsAdd cw (Num (cargoWeight (p ! i)))) (jsAdd cv (Num (cargoVolumeLtrs (p ! i)))) \<Longrightarrow>
   fillTruck t p i cw cv rd =
     fillTruck t p (i + 1) (jsAdd cw (Num (cargoWeight (p ! i))))
       (jsAdd cv (Num (cargoVolumeLtrs (p ! i)))) (rd @ [p ! i])"
  by (subst fillTruck.simps) (simp add: Let_def fitsTruck_def)

lemma fillTruck_reject:
  "i < length p \<Longrightarrow>
   \<not> fitsTruck t (jsAdd cw (Num (cargoWeight (p ! i)))) (jsAdd cv (Num (cargoVolumeLtrs (p ! i)))) \<Longrightarrow>
   fillTruck t p i cw cv rd = (i, cw, cv, rd)"
  by (subst fillTruck.simps) (auto simp: Let_def fitsTruck_def)

lemma fillTruck_index:
  "fillTruck t p i cw cv rd = (i', cw', cv', rd') \<Longrightarrow> i \<le> i'"
proof (induction t p i cw cv rd rule: fillTruck.induct)
  case (1 t p i cw cv rd)
  show ?case
  proof (cases "i < length p \<and>
      fitsTruck t (jsAdd cw (Num (cargoWeight (p ! i)))) (jsAdd cv (Num (cargoVolumeLtrs (p ! i))))")
    case True
    then have step: "fillTruck t p (i + 1) (jsAdd cw (Num (cargoWeight (p ! i))))
        (jsAdd cv (Num (cargoVolumeLtrs (p ! i)))) (rd @ [p ! i]) = (i', cw', cv', rd')"
      using "1.prems" by (simp add: fillTruck_accept)
    from True have "i + 1 \<le> i'"
      by (intro "1.IH"[OF _ refl refl refl _ step]) (simp_all add: fitsTruck_def)
    then show ?thesis by simp
  next
    case False
    then have "fillTruck t p i cw cv rd = (i, cw, cv, rd)"
      by (cases "i < length p") (simp_all add: fillTruck_reject fillTruck_done)
    with "1.prems" show ?thesis by simp
  qed
qed

lemma sumWeights_snoc: "sumWeights (xs @ [x]) = jsAdd (sumWeights xs) (Num (cargoWeight x))"
  by (simp add: sumWeights_def)

lemma sumVolumes_snoc: "sumVolumes (xs @ [x]) = jsAdd (sumVolumes xs) (Num (cargoVolumeLtrs x))"
  by (simp add: sumVolumes_def)

text \<open>The state of the inner loop, started at index i0 with an empty truck.\<close>

lemma fillTruck_invariant:
  assumes "fillTruck t p i cw cv rd = (i', cw', cv', rd')"
    and "i0 \<le> i" "i \<le> length p"
    and "rd = take (i - i0) (drop i0 p)"
    and "cw = sumWeights rd" "cv = sumVolumes rd"
    and "\<forall>n. 0 < n \<and> n \<le> i - i0 \<longrightarrow>
           fitsTruck t (sumWeights (take n (drop i0 p))) (sumVolumes (take n (drop i0 p)))"
  shows "i \<le> i' \<and> i' \<le> length p \<and>
     rd' = take (i' - i0) (drop i0 p) \<and> cw' = sumWeights rd' \<and> cv' = sumVolumes rd' \<and>
     (\<forall>n. 0 < n \<and> n \<le> i' - i0 \<longrightarrow>
        fitsTruck t (sumWeights (take n (drop i0 p))) (sumVolumes (take n (drop i0 p)))) \<and>
     (i' < length p \<longrightarrow>
        \<not> fitsTruck t (sumWeights (take (Suc (i' - i0)) (drop i0 p)))
                      (sumVolumes (take (Suc (i' - i0)) (drop i0 p))))"
  using assms
proof (induction t p i cw cv rd rule: fillTruck.induct)
  case (1 t p i cw cv rd)
  have next_take: "take (Suc (i - i0)) (drop i0 p) = rd @ [p ! i]" if "i < length p"
  proof -
    from that "1.prems"(2) have "i - i0 < length (drop i0 p)" by simp
    then have "take (Suc (i - i0)) (drop i0 p) = take (i - i0) (drop i0 p) @ [drop i0 p ! (i - i0)]"
      by (rule take_Suc_conv_app_nth)
    moreover have "drop i0 p ! (i - i0) = p ! i"
      using "1.prems"(2) that by simp
    ultimately show ?thesis using "1.prems"(4) by simp
  qed
  show ?case
  proof (cases "i < length p \<and>
      fitsTruck t (jsAdd cw (Num (cargoWeight (p ! i)))) (jsAdd cv (Num (cargoVolumeLtrs (p ! i))))")
    case True
    let ?cw = "jsAdd cw (Num (cargoWeight (p ! i)))"
    let ?cv = "jsAdd cv (Num (cargoVolumeLtrs (p ! i)))"
    from True have lt: "i < length p" and fit: "fitsTruck t ?cw ?cv" by simp_all
    have step: "fillTruck t p (i + 1) ?cw ?cv (rd @ [p ! i]) = (i', cw', cv', rd')"
      using "1.prems"(1) True by (simp add: fillTruck_accept)
    have sub: "Suc i - i0 = Suc (i - i0)" using "1.prems"(2) by simp
    have rd1: "rd @ [p ! i] = take (i + 1 - i0) (drop i0 p)"
      using next_take[OF lt] sub by simp
    have cw1: "?cw = sumWeights (rd @ [p ! i])" using "1.prems"(5) by (simp add: sumWeights_snoc)
    have cv1: "?cv = sumVolumes (rd @ [p ! i])" using "1.prems"(6) by (simp add: sumVolumes_snoc)
    have fits1: "\<forall>n. 0 < n \<and> n \<le> i + 1 - i0 \<longrightarrow>
           fitsTruck t (sumWeights (take n (drop i0 p))) (sumVolumes (take n (drop i0 p)))"
    proof (intro allI impI)
      fix n assume n: "0 < n \<and> n \<le> i + 1 - i0"
      show "fitsTruck t (sumWeights (take n (drop i0 p))) (sumVolumes (take n (drop i0 p)))"
      proof (cases "n \<le> i - i0")
        case True
        with n "1.prems"(7) show ?thesis by simp
      next
        case False
        with n sub have "n = Suc (i - i0)" by simp
        with next_take[OF lt] fit cw1 cv1 show ?thesis by simp
      qed
    qed
    have "i + 1 \<le> i' \<and> i' \<le> length p \<and>
     rd' = take (i' - i0) (drop i0 p) \<and> cw' = sumWeights rd' \<and> cv' = sumVolumes rd' \<and>
     (\<forall>n. 0 < n \<and> n \<le> i' - i0 \<longrightarrow>
        fitsTruck t (sumWeights (take n (drop i0 p))) (sumVolumes (take n (drop i0 p)))) \<and>
     (i' < length p \<longrightarrow>
        \<not> fitsTruck t (sumWeights (take (Suc (i' - i0)) (drop i0 p)))
                      (sumVolumes (take (Suc (i' - i0)) (drop i0 p))))"
    proof (rule "1.IH"[OF _ refl refl refl _ step _ _ rd1 cw1 cv1 fits1])
      show "i < length p" by (rule lt)
      show "jsLe ?cw (orInfinity (maxWeight t)) \<and> jsLe ?cv (orInfinity (maxVolume t))"
        using fit by (simp add: fitsTruck_def)
      show "i0 \<le> i + 1" using "1.prems"(2) by simp
      show "i + 1 \<le> length p" using lt by simp
    qed
    then show ?thesis by simp
  next
    case False
    then have eq: "fillTruck t p i cw cv rd = (i, cw, cv, rd)"
      by (cases "i < length p") (simp_all add: fillTruck_reject fillTruck_done)
    with "1.prems"(1) have same: "i' = i" "cw' = cw" "cv' = cv" "rd' = rd" by simp_all
    have "\<not> fitsTruck t (sumWeights (take (Suc (i - i0)) (drop i0 p)))
                      (sumVolumes (take (Suc (i - i0)) (drop i0 p)))" if lt: "i < length p"
      using False lt next_take[OF lt] "1.prems"(5,6)
      by (simp add: sumWeights_snoc sumVolumes_snoc)
    with same "1.prems" show ?thesis by simp
  qed
qed

lemma fillTruck_segment:
  assumes f: "fillTruck t p i (Num 0) (Num 0) [] = (i', cw, cv, rd)" and i: "i \<le> length p"
  shows "i' = i + length rd" and "i' \<le> length p"
    and "cw = sumWeights rd" and "cv = sumVolumes rd"
    and "greedySegment t (drop i p) rd"
proof -
  have "i \<le> i' \<and> i' \<le> length p \<and>
     rd = take (i' - i) (drop i p) \<and> cw = sumWeights rd \<and> cv = sumVolumes rd \<and>
     (\<forall>n. 0 < n \<and> n \<le> i' - i \<longrightarrow>
        fitsTruck t (sumWeights (take n (drop i p))) (sumVolumes (take n (drop i p)))) \<and>
     (i' < length p \<longrightarrow>
        \<not> fitsTruck t (sumWeights (take (Suc (i' - i)) (drop i p)))
                      (sumVolumes (take (Suc (i' - i)) (drop i p))))"
    by (rule fillTruck_invariant[OF f _ i]) (simp_all add: sumWeights_def sumVolumes_def)
  then have inv: "i \<le> i'" "i' \<le> length p" "rd = take (i' - i) (drop i p)"
    "cw = sumWeights rd" "cv = sumVolumes rd"
    "\<forall>n. 0 < n \<and> n \<le> i' - i \<longrightarrow>
        fitsTruck t (sumWeights (take n (drop i p))) (sumVolumes (take n (drop i p)))"
    "i' < length p \<longrightarrow>
        \<not> fitsTruck t (sumWeights (take (Suc (i' - i)) (drop i p)))
                      (sumVolumes (take (Suc (i' - i)) (drop i p)))"
    by blast+
  have "length (take (i' - i) (drop i p)) = i' - i" using inv(1,2) by simp
  then have len: "length rd = i' - i" by (simp only: inv(3)[symmetric])
  with inv(1) show "i' = i + length rd" by simp
  show "i' \<le> length p" by (rule inv)
  show "cw = sumWeights rd" "cv = sumVolumes rd" by (rule inv)+
  have a: "length rd \<le> length (drop i p)" using len inv(1,2) by simp
  have b: "rd = take (length rd) (drop i p)" using inv(3) len by simp
  have c: "\<forall>n. 0 < n \<and> n \<le> length rd \<longrightarrow>
        fitsTruck t (sumWeights (take n (drop i p))) (sumVolumes (take n (drop i p)))"
    using inv(6) len by simp
  have d: "length rd < length (drop i p) \<longrightarrow>
        \<not> fitsTruck t (sumWeights (take (Suc (length rd)) (drop i p)))
                      (sumVolumes (take (Suc (length rd)) (drop i p)))"
    using inv(7) len inv(1) by auto
  from a b c d show "greedySegment t (drop i p) rd"
    unfolding greedySegment_def by blast
qed

lemma allocateLoop_exhausted:
  "length p \<le> i \<Longrightarrow> allocateLoop ts p i al = (i, al)"
  by (cases ts) simp_all

lemma segmentAllocations_Cons:
  "segmentAllocations (t # ts) (s # segs) =
     (if s \<noteq> [] then [\<lparr>alloc_truck = t, alloc_deliveries = s,
                          alloc_totalWeight = sumWeights s, alloc_totalVolume = sumVolumes s\<rparr>]
      else []) @ segmentAllocations ts segs"
  by (simp add: segmentAllocations_def)

lemma segmentAllocations_empty:
  "segmentAllocations ts (replicate (length ts) []) = []"
  by (induction ts) (simp_all add: segmentAllocations_def)

lemma concat_replicate_Nil: "concat (replicate n []) = []"
  by (induction n) simp_all

lemma greedySegment_Nil: "greedySegment t [] []"
  by (simp add: greedySegment_def)


lemma allocateLoop_segments:
  "allocateLoop ts p i al = (k, al') \<Longrightarrow> i \<le> length p \<Longrightarrow>
     \<exists>segs. length segs = length ts \<and>
            k = i + length (concat segs) \<and> k \<le> length p \<and>
            concat segs = take (k - i) (drop i p) \<and>
            al' = al @ segmentAllocations ts segs \<and>
            (\<forall>j < length ts.
               greedySegment (ts ! j) (drop (i + length (concat (take j segs))) p) (segs ! j))"
proof (induction ts arbitrary: i al)
  case Nil
  then show ?case by (simp add: segmentAllocations_def)
next
  case (Cons t ts)
  show ?case
  proof (cases "length p \<le> i")
    case True
    with Cons.prems have res: "k = i" "al' = al" and i: "i = length p"
      by (simp_all add: allocateLoop_exhausted)
    let ?segs = "replicate (length (t # ts)) ([] :: delivery list)"
    have "\<forall>j < length (t # ts).
            greedySegment ((t # ts) ! j) (drop (i + length (concat (take j ?segs))) p) (?segs ! j)"
    proof (intro allI impI)
      fix j assume j: "j < length (t # ts)"
      then have "?segs ! j = []" by (simp only: nth_replicate)
      moreover have "drop (i + length (concat (take j ?segs))) p = []" using i by simp
      ultimately show "greedySegment ((t # ts) ! j)
          (drop (i + length (concat (take j ?segs))) p) (?segs ! j)"
        by (simp only: greedySegment_Nil)
    qed
    moreover have "al' = al @ segmentAllocations (t # ts) ?segs"
      using res segmentAllocations_empty[of "t # ts"] by simp
    moreover have "concat ?segs = []" by (rule concat_replicate_Nil)
    ultimately show ?thesis
      using res i by (intro exI[of _ ?segs]) simp
  next
    case False
    obtain i1 cw cv rd where f: "fillTruck t p i (Num 0) (Num 0) [] = (i1, cw, cv, rd)"
      by (cases "fillTruck t p i (Num 0) (Num 0) []") auto
    note seg = fillTruck_segment[OF f Cons.prems(2)]
    let ?a = "\<lparr>alloc_truck = t, alloc_deliveries = rd,
                alloc_totalWeight = cw, alloc_totalVolume = cv\<rparr>"
    let ?al1 = "if rd \<noteq> [] then al @ [?a] else al"
    have rest: "allocateLoop ts p i1 ?al1 = (k, al')"
      using Cons.prems(1) False f by simp
    from Cons.IH[OF rest seg(2)] obtain segs where
      ih: "length segs = length ts" "k = i1 + length (concat segs)" "k \<le> length p"
        "concat segs = take (k - i1) (drop i1 p)"
        "al' = ?al1 @ segmentAllocations ts segs"
        "\<forall>j < length ts.
            greedySegment (ts ! j) (drop (i1 + length (concat (take j segs))) p) (segs ! j)"
      by blast
    let ?segs = "rd # segs"
    have rd: "rd = take (length rd) (drop i p)"
      using seg(5) by (simp add: greedySegment_def)
    have l: "length ?segs = length (t # ts)" using ih(1) by simp
    have k: "k = i + length (concat ?segs)" using ih(2) seg(1) by simp
    have "take (k - i) (drop i p) = take (length rd + (k - i1)) (drop i p)"
      using k seg(1) ih(2) by simp
    also have "\<dots> = take (length rd) (drop i p) @ take (k - i1) (drop (length rd) (drop i p))"
      by (rule take_add)
    also have "drop (length rd) (drop i p) = drop i1 p"
      using seg(1) by (simp add: add.commute)
    finally have c: "concat ?segs = take (k - i) (drop i p)"
      using rd ih(4) by simp
    have a: "al' = al @ segmentAllocations (t # ts) ?segs"
      using ih(5) seg(3,4) by (simp add: segmentAllocations_Cons)
    have g: "\<forall>j < length (t # ts).
            greedySegment ((t # ts) ! j) (drop (i + length (concat (take j ?segs))) p) (?segs ! j)"
    proof (intro allI impI)
      fix j assume j: "j < length (t # ts)"
      show "greedySegment ((t # ts) ! j) (drop (i + length (concat (take j ?segs))) p) (?segs ! j)"
      proof (cases j)
        case 0
        with seg(5) show ?thesis by simp
      next
        case (Suc j')
        with j have "j' < length ts" by simp
        with ih(6) have "greedySegment (ts ! j') (drop (i1 + length (concat (take j' segs))) p) (segs ! j')"
          by blast
        with Suc seg(1) show ?thesis by (simp add: add.assoc)
      qed
    qed
    from l k ih(3) c a g show ?thesis by blast
  qed
qed

lemma jsAdd_Num_not_NaN: "a \<noteq> NaN \<Longrightarrow> jsAdd a (Num x) \<noteq> NaN"
  by (cases a) (auto simp: roundDouble_def Let_def)

lemma jsLe_PosInfinity: "jsLe a PosInfinity \<longleftrightarrow> a \<noteq> NaN"
  by (cases a) simp_all

lemma orInfinity_unbounded: "v = None \<or> v = Some 0 \<Longrightarrow> orInfinity v = PosInfinity"
  by (auto simp: orInfinity_def)

lemma orInfinity_nonzero: "m \<noteq> 0 \<Longrightarrow> orInfinity (Some m) = Num m"
  by (simp add: orInfinity_def)

lemma foldl_jsAdd_not_NaN:
  "s \<noteq> NaN \<Longrightarrow> foldl (\<lambda>s x. jsAdd s (Num (f x))) s xs \<noteq> NaN"
  by (induction xs arbitrary: s) (simp_all add: jsAdd_Num_not_NaN)

lemma sums_not_NaN: "sumWeights xs \<noteq> NaN" "sumVolumes xs \<noteq> NaN"
  by (simp_all add: sumWeights_def sumVolumes_def foldl_jsAdd_not_NaN)

lemma fillTruck_takes_next_iff:
  assumes "i < length p"
  shows "i < fst (fillTruck t p i cw cv rd) \<longleftrightarrow>
           fitsTruck t (jsAdd cw (Num (cargoWeight (p ! i)))) (jsAdd cv (Num (cargoVolumeLtrs (p ! i))))"
proof (cases "fitsTruck t (jsAdd cw (Num (cargoWeight (p ! i)))) (jsAdd cv (Num (cargoVolumeLtrs (p ! i))))")
  case True
  obtain i' cw' cv' rd' where r: "fillTruck t p (i + 1) (jsAdd cw (Num (cargoWeight (p ! i))))
       (jsAdd cv (Num (cargoVolumeLtrs (p ! i)))) (rd @ [p ! i]) = (i', cw', cv', rd')"
    by (metis prod_cases4)
  from fillTruck_index[OF r] have "i < i'" by simp
  with True assms r show ?thesis by (simp add: fillTruck_accept)
next
  case False
  with assms show ?thesis by (simp add: fillTruck_reject)
qed

lemma fillTruck_weight_unbounded:
  assumes "maxWeight t = None \<or> maxWeight t = Some 0" "i < length p" "cw \<noteq> NaN"
  shows "i < fst (fillTruck t p i cw cv rd) \<longleftrightarrow>
           jsLe (jsAdd cv (Num (cargoVolumeLtrs (p ! i)))) (orInfinity (maxVolume t))"
  using assms
  by (simp add: fillTruck_takes_next_iff fitsTruck_def orInfinity_unbounded jsLe_PosInfinity
        jsAdd_Num_not_NaN)

lemma fillTruck_volume_unbounded:
  assumes "maxVolume t = None \<or> maxVolume t = Some 0" "i < length p" "cv \<noteq> NaN"
  shows "i < fst (fillTruck t p i cw cv rd) \<longleftrightarrow>
           jsLe (jsAdd cw (Num (cargoWeight (p ! i)))) (orInfinity (maxWeight t))"
  using assms
  by (simp add: fillTruck_takes_next_iff fitsTruck_def orInfinity_unbounded jsLe_PosInfinity
        jsAdd_Num_not_NaN)

lemma greedySegment_unbounded:
  assumes "maxWeight t = None \<or> maxWeight t = Some 0" "maxVolume t = None \<or> maxVolume t = Some 0"
    and "greedySegment t q s"
  shows "s = q"
proof -
  have fit: "fitsTruck t (sumWeights xs) (sumVolumes xs)" for xs
    using assms(1,2) by (simp add: fitsTruck_def orInfinity_unbounded jsLe_PosInfinity sums_not_NaN)
  from assms(3) fit have "\<not> length s < length q" "length s \<le> length q" "s = take (length s) q"
    unfolding greedySegment_def by blast+
  then show ?thesis by simp
qed

lemma unbounded_truck_takes_all:
  assumes "maxWeight t = None \<or> maxWeight t = Some 0" "maxVolume t = None \<or> maxVolume t = Some 0"
    and "p \<noteq> []"
  shows "greedyAllocation (t # ts) p =
           [\<lparr>alloc_truck = t, alloc_deliveries = p,
             alloc_totalWeight = sumWeights p, alloc_totalVolume = sumVolumes p\<rparr>]"
proof -
  obtain i1 cw cv rd where f: "fillTruck t p 0 (Num 0) (Num 0) [] = (i1, cw, cv, rd)"
    by (metis prod_cases4)
  from fillTruck_segment[OF f] have seg: "i1 = length rd" "cw = sumWeights rd" "cv = sumVolumes rd"
    "greedySegment t p rd" by simp_all
  from greedySegment_unbounded[OF assms(1,2) seg(4)] have "rd = p" .
  with seg f assms(3) show ?thesis
    by (simp add: greedyAllocation_def allocateLoop_exhausted)
qed

lemma createRoute_route:
  "createRoute gen now cid a d = Some r \<Longrightarrow> routeOfAllocation r a"
  by (auto simp: createRoute_def routeOfAllocation_def finiteNumber_def Let_def
           split: option.splits jsnum.splits)

lemma createRoutes_routes:
  "createRoutes gen now cid allocs d created = Some (routes, d') \<Longrightarrow>
     \<exists>rs. routes = created @ rs \<and> list_all2 routeOfAllocation rs allocs"
proof (induction allocs arbitrary: d created)
  case Nil
  then show ?case by simp
next
  case (Cons a allocs)
  from Cons.prems obtain r where r: "createRoute gen now cid a d = Some r"
    by (auto split: option.splits)
  with Cons.prems obtain dC where
    "createRoutes gen now cid allocs dC (created @ [r]) = Some (routes, d')"
    by (simp add: Let_def)
  from Cons.IH[OF this] obtain rs where
    rs: "routes = (created @ [r]) @ rs" "list_all2 routeOfAllocation rs allocs" by blast
  from createRoute_route[OF r] rs
  have "routes = created @ (r # rs)" "list_all2 routeOfAllocation (r # rs) (a # allocs)"
    by simp_all
  then show ?case by blast
qed

lemma greedyAllocation_segments:
  "\<exists>segs. length segs = length ts \<and>
          concat segs = take (fst (allocateLoop ts p 0 [])) p \<and>
          greedyAllocation ts p = segmentAllocations ts segs \<and>
          (\<forall>j < length ts.
             greedySegment (ts ! j) (drop (length (concat (take j segs))) p) (segs ! j))"
proof -
  obtain k al where r: "allocateLoop ts p 0 [] = (k, al)"
    by (cases "allocateLoop ts p 0 []") auto
  from allocateLoop_segments[OF r] r show ?thesis
    by (auto simp: greedyAllocation_def)
qed

lemma segmentAllocations_member:
  assumes "a \<in> set (segmentAllocations ts segs)" "length segs = length ts"
  shows "\<exists>j < length ts. alloc_truck a = ts ! j \<and> alloc_deliveries a = segs ! j \<and> segs ! j \<noteq> [] \<and>
            alloc_totalWeight a = sumWeights (segs ! j) \<and> alloc_totalVolume a = sumVolumes (segs ! j)"
proof -
  from assms(1) obtain t s where ts: "(t, s) \<in> set (zip ts segs)" "s \<noteq> []"
    and a: "a = \<lparr>alloc_truck = t, alloc_deliveries = s,
                 alloc_totalWeight = sumWeights s, alloc_totalVolume = sumVolumes s\<rparr>"
    by (auto simp: segmentAllocations_def)
  from ts(1) obtain j where "j < length ts" "ts ! j = t" "segs ! j = s"
    using assms(2) by (auto simp: in_set_zip)
  with ts(2) a show ?thesis by auto
qed

lemma greedySegment_whole_fits:
  "greedySegment t q s \<Longrightarrow> s \<noteq> [] \<Longrightarrow> fitsTruck t (sumWeights s) (sumVolumes s)"
proof -
  assume g: "greedySegment t q s" and ne: "s \<noteq> []"
  then have "0 < length s \<and> length s \<le> length s" by simp
  with g have "fitsTruck t (sumWeights (take (length s) q)) (sumVolumes (take (length s) q))"
    unfolding greedySegment_def by blast
  moreover from g have "take (length s) q = s" unfolding greedySegment_def by simp
  ultimately show ?thesis by simp
qed

lemma greedyAllocation_sound:
  assumes "a \<in> set (greedyAllocation ts p)"
  shows "alloc_deliveries a \<noteq> []"
    and "alloc_totalWeight a = sumWeights (alloc_deliveries a)"
    and "alloc_totalVolume a = sumVolumes (alloc_deliveries a)"
    and "fitsTruck (alloc_truck a) (sumWeights (alloc_deliveries a)) (sumVolumes (alloc_deliveries a))"
proof -
  from greedyAllocation_segments[of ts p] obtain segs where
    s: "length segs = length ts" "greedyAllocation ts p = segmentAllocations ts segs"
       "\<forall>j < length ts.
             greedySegment (ts ! j) (drop (length (concat (take j segs))) p) (segs ! j)"
    by blast
  from segmentAllocations_member[OF assms[unfolded s(2)] s(1)] obtain j where
    j: "j < length ts" "alloc_truck a = ts ! j" "alloc_deliveries a = segs ! j" "segs ! j \<noteq> []"
       "alloc_totalWeight a = sumWeights (segs ! j)" "alloc_totalVolume a = sumVolumes (segs ! j)"
    by blast
  from j show "alloc_deliveries a \<noteq> []"
    and "alloc_totalWeight a = sumWeights (alloc_deliveries a)"
    and "alloc_totalVolume a = sumVolumes (alloc_deliveries a)" by simp_all
  from s(3) j(1) have "greedySegment (ts ! j) (drop (length (concat (take j segs))) p) (segs ! j)"
    by blast
  from greedySegment_whole_fits[OF this j(4)] j(2,3)
  show "fitsTruck (alloc_truck a) (sumWeights (alloc_deliveries a)) (sumVolumes (alloc_deliveries a))"
    by simp
qed

lemma greedyAllocation_truck:
  assumes "a \<in> set (greedyAllocation ts p)"
  shows "alloc_truck a \<in> set ts"
proof -
  from greedyAllocation_segments[of ts p] obtain segs where
    s: "length segs = length ts" "greedyAllocation ts p = segmentAllocations ts segs"
    by blast
  from segmentAllocations_member[OF assms[unfolded s(2)] s(1)] obtain j where
    "j < length ts" "alloc_truck a = ts ! j"
    by blast
  then show ?thesis by simp
qed

lemma created_route_within_limits:
  assumes run: "allocateRoutes gen now d (Some cid) = (Inr (Allocated n m routes), d')"
    and r: "r \<in> set routes"
  shows "\<exists>t \<in> set (findAvailableTrucks d cid).
           route_truckId r = truck_id t \<and> 0 < totalPackages r \<and>
           (\<forall>w. maxWeight t = Some w \<and> w \<noteq> 0 \<longrightarrow> route_totalWeight r \<le> w) \<and>
           (\<forall>v. maxVolume t = Some v \<and> v \<noteq> 0 \<longrightarrow> route_totalVolume r \<le> v)"
proof -
  let ?ts = "findAvailableTrucks d cid"
  let ?al = "greedyAllocation ?ts (findPendingDeliveries d cid)"
  from run have "createRoutes gen now cid ?al d [] = Some (routes, d')"
    by (auto simp: allocateRoutes_def Let_def split: if_splits option.splits)
  from createRoutes_routes[OF this] have "list_all2 routeOfAllocation routes ?al" by simp
  then have len: "length routes = length ?al"
    and nth: "\<forall>i < length routes. routeOfAllocation (routes ! i) (?al ! i)"
    by (simp_all add: list_all2_conv_all_nth)
  from r obtain i where i: "i < length routes" "routes ! i = r"
    by (auto simp: in_set_conv_nth)
  define a where "a = ?al ! i"
  from i len nth have a: "a \<in> set ?al" "routeOfAllocation r a"
    unfolding a_def by auto
  note sound = greedyAllocation_sound[OF a(1)]
  from a(2) sound(2,3) have tot: "sumWeights (alloc_deliveries a) = Num (route_totalWeight r)"
    "sumVolumes (alloc_deliveries a) = Num (route_totalVolume r)"
    by (simp_all add: routeOfAllocation_def)
  have "alloc_truck a \<in> set ?ts" by (rule greedyAllocation_truck[OF a(1)])
  moreover from a(2) have "route_truckId r = truck_id (alloc_truck a)"
    by (simp add: routeOfAllocation_def)
  moreover from a(2) sound(1) have "0 < totalPackages r"
    by (simp add: routeOfAllocation_def)
  moreover have "maxWeight (alloc_truck a) = Some w \<and> w \<noteq> 0 \<longrightarrow> route_totalWeight r \<le> w" for w
    using sound(4) tot by (auto simp: fitsTruck_def orInfinity_nonzero)
  moreover have "maxVolume (alloc_truck a) = Some v \<and> v \<noteq> 0 \<longrightarrow> route_totalVolume r \<le> v" for v
    using sound(4) tot by (auto simp: fitsTruck_def orInfinity_nonzero)
  ultimately show ?thesis by blast
qed

text \<open>
  Claim C1, as stated: a route's summed weight never exceeds a \<^verbatim>\<open>maxWeight\<close> that is set.
  First, a truck whose \<^verbatim>\<open>maxWeight\<close> is set to 0 is given a delivery of weight 5:
  \<^verbatim>\<open>0 || Infinity\<close> is \<^verbatim>\<open>Infinity\<close>, so the limit 0 is read as no limit, and the handler
  creates a route of total weight 5 on that truck. Second, the loop tests the sum it has
  accumulated in double precision: a truck whose \<^verbatim>\<open>maxWeight\<close> is the double
  0.7999999999999999 is given the deliveries of weights 0.1 and 0.7, whose double sum is
  that limit and whose exact sum is above it.
\<close>

theorem capacity_bound_counterexample:
  "greedyAllocation [sampleTruck ''truck-0'' ''driver-0'' (Some 0) None] [sampleDelivery ''d-9'' 10 5] =
     [\<lparr>alloc_truck = sampleTruck ''truck-0'' ''driver-0'' (Some 0) None,
       alloc_deliveries = [sampleDelivery ''d-9'' 10 5],
       alloc_totalWeight = Num 5, alloc_totalVolume = Num 1\<rparr>] \<and>
   maxWeight (sampleTruck ''truck-0'' ''driver-0'' (Some 0) None) = Some 0 \<and>
   \<not> cargoWeight (sampleDelivery ''d-9'' 10 5) \<le> 0 \<and>
   fst (allocateRoutes freshId 1000 zeroLimitDb (Some ''co-1''))
     = Inr (Allocated 1 1 [zeroLimitRoute]) \<and>
   route_truckId zeroLimitRoute = ''truck-0'' \<and> route_totalWeight zeroLimitRoute = 5 \<and>
   greedyAllocation [roundingTruck] [tenthDelivery, seventhsDelivery] =
     [\<lparr>alloc_truck = roundingTruck,
       alloc_deliveries = [tenthDelivery, seventhsDelivery],
       alloc_totalWeight = Num (double (7999999999999999 / 10 ^ 16)), alloc_totalVolume = Num 2\<rparr>] \<and>
   maxWeight roundingTruck = Some (double (7999999999999999 / 10 ^ 16)) \<and>
   \<not> cargoWeight tenthDelivery + cargoWeight seventhsDelivery \<le> double (7999999999999999 / 10 ^ 16)"
  by code_simp

text \<open>
  Claim C1, amended. In every run of the allocation loop, every allocation is not empty,
  its total weight and total volume are the weights and the volumes of its deliveries
  added in queue order in double precision, the total weight does not exceed a
  \<^verbatim>\<open>maxWeight\<close> that is set to a value other than 0, and the total volume does not exceed a
  \<^verbatim>\<open>maxVolume\<close> that is set to a value other than 0. The routes the handler creates carry
  the truck and the totals of these allocations, one route per allocation: every created
  route is on one of the available trucks, has at least one package, and its stored total
  weight and total volume do not exceed that truck's limits that are set to a value other
  than 0. A limit that
  is absent or 0 is unbounded: whatever weight the truck has accumulated, a truck without
  a weight limit takes the next delivery exactly when it passes the volume test, a truck
  without a volume limit exactly when it passes the weight test, and a truck without
  either limit takes the whole queue.
\<close>

theorem allocation_within_nonzero_limits:
  "(a \<in> set (greedyAllocation availableTrucks pendingDeliveries) \<longrightarrow>
      alloc_deliveries a \<noteq> [] \<and>
      alloc_totalWeight a = sumWeights (alloc_deliveries a) \<and>
      alloc_totalVolume a = sumVolumes (alloc_deliveries a) \<and>
      (maxWeight (alloc_truck a) = Some mw \<and> mw \<noteq> 0 \<longrightarrow>
         jsLe (sumWeights (alloc_deliveries a)) (Num mw)) \<and>
      (maxVolume (alloc_truck a) = Some mv \<and> mv \<noteq> 0 \<longrightarrow>
         jsLe (sumVolumes (alloc_deliveries a)) (Num mv))) \<and>
   (allocateRoutes gen now d (Some courierCompanyId) = (Inr (Allocated n m routes), d') \<longrightarrow>
      list_all2 routeOfAllocation routes
        (greedyAllocation (findAvailableTrucks d courierCompanyId)
                          (findPendingDeliveries d courierCompanyId))) \<and>
   (allocateRoutes gen now d (Some courierCompanyId) = (Inr (Allocated n m routes), d') \<and>
    r \<in> set routes \<longrightarrow>
      (\<exists>truck \<in> set (findAvailableTrucks d courierCompanyId).
          route_truckId r = truck_id truck \<and> 0 < totalPackages r \<and>
          (\<forall>w. maxWeight truck = Some w \<and> w \<noteq> 0 \<longrightarrow> route_totalWeight r \<le> w) \<and>
          (\<forall>v. maxVolume truck = Some v \<and> v \<noteq> 0 \<longrightarrow> route_totalVolume r \<le> v))) \<and>
   ((maxWeight t = None \<or> maxWeight t = Some 0) \<and> i < length p \<and> cw \<noteq> NaN \<longrightarrow>
      (i < fst (fillTruck t p i cw cv rd)) =
        jsLe (jsAdd cv (Num (cargoVolumeLtrs (p ! i)))) (orInfinity (maxVolume t))) \<and>
   ((maxVolume u = None \<or> maxVolume u = Some 0) \<and> i < length p \<and> cv \<noteq> NaN \<longrightarrow>
      (i < fst (fillTruck u p i cw cv rd)) =
        jsLe (jsAdd cw (Num (cargoWeight (p ! i)))) (orInfinity (maxWeight u))) \<and>
   ((maxWeight v = None \<or> maxWeight v = Some 0) \<and> (maxVolume v = None \<or> maxVolume v = Some 0)
      \<and> q \<noteq> [] \<longrightarrow>
      greedyAllocation (v # otherTrucks) q =
        [\<lparr>alloc_truck = v, alloc_deliveries = q,
          alloc_totalWeight = sumWeights q, alloc_totalVolume = sumVolumes q\<rparr>])"
proof (intro conjI impI)
  assume a: "a \<in> set (greedyAllocation availableTrucks pendingDeliveries)"
  note sound = greedyAllocation_sound[OF a]
  show "alloc_deliveries a \<noteq> []" by (rule sound)
  show "alloc_totalWeight a = sumWeights (alloc_deliveries a)" by (rule sound)
  show "alloc_totalVolume a = sumVolumes (alloc_deliveries a)" by (rule sound)
  { assume "maxWeight (alloc_truck a) = Some mw \<and> mw \<noteq> 0"
    with sound(4) show "jsLe (sumWeights (alloc_deliveries a)) (Num mw)"
      by (simp add: fitsTruck_def orInfinity_nonzero) }
  { assume "maxVolume (alloc_truck a) = Some mv \<and> mv \<noteq> 0"
    with sound(4) show "jsLe (sumVolumes (alloc_deliveries a)) (Num mv)"
      by (simp add: fitsTruck_def orInfinity_nonzero) }
next
  assume run: "allocateRoutes gen now d (Some courierCompanyId) = (Inr (Allocated n m routes), d')"
  let ?al = "greedyAllocation (findAvailableTrucks d courierCompanyId)
                          (findPendingDeliveries d courierCompanyId)"
  from run have "createRoutes gen now courierCompanyId ?al d [] = Some (routes, d')"
    by (auto simp: allocateRoutes_def Let_def split: if_splits option.splits)
  from createRoutes_routes[OF this] show "list_all2 routeOfAllocation routes ?al" by simp
next
  assume "allocateRoutes gen now d (Some courierCompanyId) = (Inr (Allocated n m routes), d') \<and>
    r \<in> set routes"
  then have "allocateRoutes gen now d (Some courierCompanyId) = (Inr (Allocated n m routes), d')"
    and "r \<in> set routes" by simp_all
  then show "\<exists>truck \<in> set (findAvailableTrucks d courierCompanyId).
          route_truckId r = truck_id truck \<and> 0 < totalPackages r \<and>
          (\<forall>w. maxWeight truck = Some w \<and> w \<noteq> 0 \<longrightarrow> route_totalWeight r \<le> w) \<and>
          (\<forall>v. maxVolume truck = Some v \<and> v \<noteq> 0 \<longrightarrow> route_totalVolume r \<le> v)"
    by (rule created_route_within_limits)
next
  assume "(maxWeight t = None \<or> maxWeight t = Some 0) \<and> i < length p \<and> cw \<noteq> NaN"
  then show "(i < fst (fillTruck t p i cw cv rd)) =
        jsLe (jsAdd cv (Num (cargoVolumeLtrs (p ! i)))) (orInfinity (maxVolume t))"
    by (intro fillTruck_weight_unbounded) simp_all
next
  assume "(maxVolume u = None \<or> maxVolume u = Some 0) \<and> i < length p \<and> cv \<noteq> NaN"
  then show "(i < fst (fillTruck u p i cw cv rd)) =
        jsLe (jsAdd cw (Num (cargoWeight (p ! i)))) (orInfinity (maxWeight u))"
    by (intro fillTruck_volume_unbounded) simp_all
next
  assume "(maxWeight v = None \<or> maxWeight v = Some 0) \<and> (maxVolume v = None \<or> maxVolume v = Some 0)
      \<and> q \<noteq> []"
  then show "greedyAllocation (v # otherTrucks) q =
        [\<lparr>alloc_truck = v, alloc_deliveries = q,
          alloc_totalWeight = sumWeights q, alloc_totalVolume = sumVolumes q\<rparr>]"
    by (intro unbounded_truck_takes_all) simp_all
qed

lemma scenarioA_run:
  "allocateRoutes freshId 1000 scenarioA (Some ''co-1'') =
     (Inr (Allocated 1 3 [scenarioA_route]), scenarioA_after)"
  by code_simp

lemma scenarioA_queries:
  "findAvailableTrucks scenarioA ''co-1'' = [sampleTruck ''truck-1'' ''driver-1'' (Some 5) None]"
  "findPendingDeliveries scenarioA ''co-1'' =
     [sampleDelivery ''d-1'' 10 2, sampleDelivery ''d-2'' 20 3, sampleDelivery ''d-3'' 30 4]"
  by code_simp+

lemma limited_truck_greedy:
  "greedyAllocation [sampleTruck ''truck-2'' ''driver-2'' (Some 5) (Some 10)]
      [sampleDelivery ''d-1'' 10 2, sampleDelivery ''d-2'' 20 3, sampleDelivery ''d-3'' 30 4]
   = [\<lparr>alloc_truck = sampleTruck ''truck-2'' ''driver-2'' (Some 5) (Some 10),
       alloc_deliveries = [sampleDelivery ''d-1'' 10 2, sampleDelivery ''d-2'' 20 3],
       alloc_totalWeight = Num 5, alloc_totalVolume = Num 2\<rparr>]"
  by code_simp

lemma limited_truck_facts:
  "maxWeight (sampleTruck ''truck-2'' ''driver-2'' (Some 5) (Some 10)) = Some 5"
  "maxVolume (sampleTruck ''truck-2'' ''driver-2'' (Some 5) (Some 10)) = Some 10"
  "sumWeights [sampleDelivery ''d-1'' 10 2, sampleDelivery ''d-2'' 20 3] = Num 5"
  "sumVolumes [sampleDelivery ''d-1'' 10 2, sampleDelivery ''d-2'' 20 3] = Num 2"
  by code_simp+

lemma zero_limit_facts:
  "maxWeight (sampleTruck ''truck-0'' ''driver-0'' (Some 0) (Some 10)) = Some 0"
  "maxVolume (sampleTruck ''truck-0'' ''driver-0'' (Some 5) (Some 0)) = Some 0"
  "maxWeight (sampleTruck ''truck-0'' ''driver-0'' (Some 0) None) = Some 0"
  "maxVolume (sampleTruck ''truck-0'' ''driver-0'' (Some 0) None) = None"
  "fst (fillTruck (sampleTruck ''truck-0'' ''driver-0'' (Some 0) (Some 10))
          [sampleDelivery ''d-9'' 10 5] 0 (Num 1000000) (Num 0) []) = 1"
  "jsLe (jsAdd (Num 0) (Num (cargoVolumeLtrs ([sampleDelivery ''d-9'' 10 5] ! 0))))
        (orInfinity (maxVolume (sampleTruck ''truck-0'' ''driver-0'' (Some 0) (Some 10))))"
  "fst (fillTruck (sampleTruck ''truck-0'' ''driver-0'' (Some 5) (Some 0))
          [sampleDelivery ''d-9'' 10 5] 0 (Num 0) (Num 1000000) []) = 1"
  "jsLe (jsAdd (Num 0) (Num (cargoWeight ([sampleDelivery ''d-9'' 10 5] ! 0))))
        (orInfinity (maxWeight (sampleTruck ''truck-0'' ''driver-0'' (Some 5) (Some 0))))"
  "sumWeights [sampleDelivery ''d-9'' 10 5] = Num 5"
  "sumVolumes [sampleDelivery ''d-9'' 10 5] = Num 1"
  by code_simp+

theorem allocation_within_nonzero_limits_witness:
  "\<lparr>alloc_truck = sampleTruck ''truck-2'' ''driver-2'' (Some 5) (Some 10),
     alloc_deliveries = [sampleDelivery ''d-1'' 10 2, sampleDelivery ''d-2'' 20 3],
     alloc_totalWeight = Num 5, alloc_totalVolume = Num 2\<rparr>
     \<in> set (greedyAllocation [sampleTruck ''truck-2'' ''driver-2'' (Some 5) (Some 10)]
          [sampleDelivery ''d-1'' 10 2, sampleDelivery ''d-2'' 20 3, sampleDelivery ''d-3'' 30 4]) \<and>
   maxWeight (sampleTruck ''truck-2'' ''driver-2'' (Some 5) (Some 10)) = Some 5 \<and> (5::real) \<noteq> 0 \<and>
   maxVolume (sampleTruck ''truck-2'' ''driver-2'' (Some 5) (Some 10)) = Some 10 \<and> (10::real) \<noteq> 0 \<and>
   jsLe (sumWeights [sampleDelivery ''d-1'' 10 2, sampleDelivery ''d-2'' 20 3]) (Num 5) \<and>
   jsLe (sumVolumes [sampleDelivery ''d-1'' 10 2, sampleDelivery ''d-2'' 20 3]) (Num 10) \<and>
   allocateRoutes freshId 1000 scenarioA (Some ''co-1'')
     = (Inr (Allocated 1 3 [scenarioA_route]), scenarioA_after) \<and>
   list_all2 routeOfAllocation [scenarioA_route]
     (greedyAllocation (findAvailableTrucks scenarioA ''co-1'') (findPendingDeliveries scenarioA ''co-1'')) \<and>
   findAvailableTrucks scenarioA ''co-1'' = [sampleTruck ''truck-1'' ''driver-1'' (Some 5) None] \<and>
   maxWeight (sampleTruck ''truck-1'' ''driver-1'' (Some 5) None) = Some 5 \<and>
   route_totalWeight scenarioA_route \<le> 5 \<and>
   maxWeight (sampleTruck ''truck-0'' ''driver-0'' (Some 0) (Some 10)) = Some 0 \<and>
   fst (fillTruck (sampleTruck ''truck-0'' ''driver-0'' (Some 0) (Some 10))
          [sampleDelivery ''d-9'' 10 5] 0 (Num 1000000) (Num 0) []) = 1 \<and>
   maxVolume (sampleTruck ''truck-0'' ''driver-0'' (Some 5) (Some 0)) = Some 0 \<and>
   fst (fillTruck (sampleTruck ''truck-0'' ''driver-0'' (Some 5) (Some 0))
          [sampleDelivery ''d-9'' 10 5] 0 (Num 0) (Num 1000000) []) = 1 \<and>
   greedyAllocation [sampleTruck ''truck-0'' ''driver-0'' (Some 0) None,
                     sampleTruck ''truck-2'' ''driver-2'' (Some 5) (Some 10)]
                    [sampleDelivery ''d-9'' 10 5]
     = [\<lparr>alloc_truck = sampleTruck ''truck-0'' ''driver-0'' (Some 0) None,
         alloc_deliveries = [sampleDelivery ''d-9'' 10 5],
         alloc_totalWeight = Num 5, alloc_totalVolume = Num 1\<rparr>]"
proof -
  let ?t = "sampleTruck ''truck-2'' ''driver-2'' (Some 5) (Some 10)"
  let ?p = "[sampleDelivery ''d-1'' 10 2, sampleDelivery ''d-2'' 20 3, sampleDelivery ''d-3'' 30 4]"
  let ?a = "\<lparr>alloc_truck = ?t,
              alloc_deliveries = [sampleDelivery ''d-1'' 10 2, sampleDelivery ''d-2'' 20 3],
              alloc_totalWeight = Num 5, alloc_totalVolume = Num 2\<rparr>"
  let ?zw = "sampleTruck ''truck-0'' ''driver-0'' (Some 0) (Some 10)"
  let ?zv = "sampleTruck ''truck-0'' ''driver-0'' (Some 5) (Some 0)"
  let ?z = "sampleTruck ''truck-0'' ''driver-0'' (Some 0) None"
  let ?q = "[sampleDelivery ''d-9'' 10 5]"
  have mem: "?a \<in> set (greedyAllocation [?t] ?p)"
    by (simp only: limited_truck_greedy) simp
  have sel: "alloc_truck ?a = ?t"
    "alloc_deliveries ?a = [sampleDelivery ''d-1'' 10 2, sampleDelivery ''d-2'' 20 3]"
    by simp_all
  have nz: "(5::real) \<noteq> 0" "(10::real) \<noteq> 0" by simp_all
  have pos: "(0::nat) < length ?q" by simp
  have nn: "Num 1000000 \<noteq> NaN" by simp
  have ne: "?q \<noteq> []" by simp
  note inst = allocation_within_nonzero_limits[where a = ?a and availableTrucks = "[?t]"
      and pendingDeliveries = ?p and mw = 5 and mv = 10
      and gen = freshId and now = 1000 and d = scenarioA and courierCompanyId = "''co-1''"
      and n = 1 and m = 3 and routes = "[scenarioA_route]" and d' = scenarioA_after
      and r = scenarioA_route
      and v = ?z and q = ?q and otherTrucks = "[?t]"]
  note inst' = inst[unfolded sel]
  from inst' mem limited_truck_facts(1,2) nz
  have bw: "jsLe (sumWeights [sampleDelivery ''d-1'' 10 2, sampleDelivery ''d-2'' 20 3]) (Num 5)"
    by blast
  from inst' mem limited_truck_facts(1,2) nz
  have bv: "jsLe (sumVolumes [sampleDelivery ''d-1'' 10 2, sampleDelivery ''d-2'' 20 3]) (Num 10)"
    by blast
  from inst scenarioA_run
  have routes: "list_all2 routeOfAllocation [scenarioA_route]
     (greedyAllocation (findAvailableTrucks scenarioA ''co-1'') (findPendingDeliveries scenarioA ''co-1''))"
    by blast
  have rmem: "scenarioA_route \<in> set [scenarioA_route]" by simp
  have mwA: "maxWeight (sampleTruck ''truck-1'' ''driver-1'' (Some 5) None) = Some 5"
    by (simp add: sampleTruck_def)
  from inst scenarioA_run rmem
  have "\<exists>truck \<in> set (findAvailableTrucks scenarioA ''co-1'').
          route_truckId scenarioA_route = truck_id truck \<and> 0 < totalPackages scenarioA_route \<and>
          (\<forall>w. maxWeight truck = Some w \<and> w \<noteq> 0 \<longrightarrow> route_totalWeight scenarioA_route \<le> w) \<and>
          (\<forall>v. maxVolume truck = Some v \<and> v \<noteq> 0 \<longrightarrow> route_totalVolume scenarioA_route \<le> v)"
    by blast
  with mwA nz(1) have rbound: "route_totalWeight scenarioA_route \<le> 5"
    by (simp only: scenarioA_queries(1)) auto
  from inst zero_limit_facts(3,4) ne
  have "greedyAllocation [?z, ?t] ?q =
     [\<lparr>alloc_truck = ?z, alloc_deliveries = ?q,
       alloc_totalWeight = sumWeights ?q, alloc_totalVolume = sumVolumes ?q\<rparr>]"
    by blast
  then have all: "greedyAllocation [?z, ?t] ?q =
     [\<lparr>alloc_truck = ?z, alloc_deliveries = ?q,
       alloc_totalWeight = Num 5, alloc_totalVolume = Num 1\<rparr>]"
    by (simp only: zero_limit_facts(9,10))
  from allocation_within_nonzero_limits[where t = ?zw and p = ?q and i = 0
      and cw = "Num 1000000" and cv = "Num 0" and rd = "[]"]
    zero_limit_facts(1) pos nn zero_limit_facts(6)
  have w: "0 < fst (fillTruck ?zw ?q 0 (Num 1000000) (Num 0) [])"
    by blast
  from allocation_within_nonzero_limits[where u = ?zv and p = ?q and i = 0
      and cv = "Num 1000000" and cw = "Num 0" and rd = "[]"]
    zero_limit_facts(2) pos nn zero_limit_facts(8)
  have v: "0 < fst (fillTruck ?zv ?q 0 (Num 0) (Num 1000000) [])"
    by blast
  from mem limited_truck_facts(1,2) nz bw bv scenarioA_run routes scenarioA_queries(1) mwA rbound
    zero_limit_facts(1,2,5,7) all
  show ?thesis
    by (intro conjI)
qed








lemma pending_empty_iff:
  "findPendingDeliveries d c = [] \<longleftrightarrow>
     (\<forall>x \<in> set (deliveries d). \<not> (delivery_courierCompanyId x = c \<and> delivery_status x = ''PENDING''))"
proof -
  have "findPendingDeliveries d c = [] \<longleftrightarrow> set (findPendingDeliveries d c) = {}"
    by simp
  also have "\<dots> \<longleftrightarrow> (\<forall>x \<in> set (deliveries d).
      \<not> (delivery_courierCompanyId x = c \<and> delivery_status x = ''PENDING''))"
    unfolding findPendingDeliveries_def by (auto simp: filter_empty_conv)
  finally show ?thesis .
qed

lemma trucks_empty_iff:
  "findAvailableTrucks d c = [] \<longleftrightarrow>
     (\<forall>t \<in> set (trucks d). \<not> (truck_courierCompanyId t = c \<and> isAvailable t
                                  \<and> registrationStatus t = ''APPROVED''))"
  unfolding findAvailableTrucks_def by (auto simp: filter_empty_conv)

text \<open>
  Claim C9. Without a company identifier in the request (or with an empty one) the
  handler fails with ValidationError. With an identifier and no PENDING delivery of that
  company it answers "nothing to do", which is a success. With a PENDING delivery of the
  company and no truck of the company that is available and APPROVED it fails with
  CapacityError. The store is left as it is in the three cases.
\<close>

theorem allocateRoutes_error_contract:
  "(body = None \<or> body = Some [] \<longrightarrow> allocateRoutes gen now d body = (Inl ValidationError, d)) \<and>
   (body = Some c \<and> c \<noteq> [] \<and>
    (\<forall>x \<in> set (deliveries d). \<not> (delivery_courierCompanyId x = c \<and> delivery_status x = ''PENDING''))
      \<longrightarrow> allocateRoutes gen now d body = (Inr NothingToDo, d)) \<and>
   (body = Some c \<and> c \<noteq> [] \<and>
    (\<exists>x \<in> set (deliveries d). delivery_courierCompanyId x = c \<and> delivery_status x = ''PENDING'') \<and>
    (\<forall>t \<in> set (trucks d). \<not> (truck_courierCompanyId t = c \<and> isAvailable t
                                  \<and> registrationStatus t = ''APPROVED''))
      \<longrightarrow> allocateRoutes gen now d body = (Inl CapacityError, d))"
proof (intro conjI impI)
  assume "body = None \<or> body = Some []"
  then show "allocateRoutes gen now d body = (Inl ValidationError, d)"
    by (auto simp: allocateRoutes_def)
next
  assume h: "body = Some c \<and> c \<noteq> [] \<and>
    (\<forall>x \<in> set (deliveries d). \<not> (delivery_courierCompanyId x = c \<and> delivery_status x = ''PENDING''))"
  then have "findPendingDeliveries d c = []" by (simp add: pending_empty_iff)
  with h show "allocateRoutes gen now d body = (Inr NothingToDo, d)"
    by (simp add: allocateRoutes_def)
next
  assume h: "body = Some c \<and> c \<noteq> [] \<and>
    (\<exists>x \<in> set (deliveries d). delivery_courierCompanyId x = c \<and> delivery_status x = ''PENDING'') \<and>
    (\<forall>t \<in> set (trucks d). \<not> (truck_courierCompanyId t = c \<and> isAvailable t
                                  \<and> registrationStatus t = ''APPROVED''))"
  then have "findPendingDeliveries d c \<noteq> []" "findAvailableTrucks d c = []"
    using pending_empty_iff[of d c] trucks_empty_iff[of d c] by blast+
  with h show "allocateRoutes gen now d body = (Inl CapacityError, d)"
    by (simp add: allocateRoutes_def)
qed

theorem allocateRoutes_error_contract_witness:
  "allocateRoutes freshId 1000 scenarioA None = (Inl ValidationError, scenarioA) \<and>
   allocateRoutes freshId 1000 scenarioA (Some []) = (Inl ValidationError, scenarioA) \<and>
   ''co-2'' \<noteq> [] \<and>
   map delivery_courierCompanyId (deliveries scenarioA) = [''co-1'', ''co-1'', ''co-1''] \<and>
   allocateRoutes freshId 1000 scenarioA (Some ''co-2'') = (Inr NothingToDo, scenarioA) \<and>
   ''co-1'' \<noteq> [] \<and>
   map delivery_courierCompanyId (deliveries noTruckDb) = [''co-1'', ''co-1'', ''co-1''] \<and>
   map delivery_status (deliveries noTruckDb) = [''PENDING'', ''PENDING'', ''PENDING''] \<and>
   map registrationStatus (trucks noTruckDb) = [''PENDING''] \<and>
   allocateRoutes freshId 1000 noTruckDb (Some ''co-1'') = (Inl CapacityError, noTruckDb)"
proof -
  have a: "\<forall>x \<in> set (deliveries scenarioA).
       \<not> (delivery_courierCompanyId x = ''co-2'' \<and> delivery_status x = ''PENDING'')"
    by (simp add: scenarioA_def emptyDb_def sampleDelivery_def)
  have b: "\<exists>x \<in> set (deliveries noTruckDb).
       delivery_courierCompanyId x = ''co-1'' \<and> delivery_status x = ''PENDING''"
    by (simp add: noTruckDb_def scenarioA_def emptyDb_def sampleDelivery_def)
  have c: "\<forall>t \<in> set (trucks noTruckDb).
       \<not> (truck_courierCompanyId t = ''co-1'' \<and> isAvailable t \<and> registrationStatus t = ''APPROVED'')"
    by (simp add: noTruckDb_def scenarioA_def emptyDb_def sampleTruck_def)
  from a b c
    allocateRoutes_error_contract[of None freshId 1000 scenarioA]
    allocateRoutes_error_contract[of "Some []" freshId 1000 scenarioA]
    allocateRoutes_error_contract[of "Some ''co-2''" freshId 1000 scenarioA "''co-2''"]
    allocateRoutes_error_contract[of "Some ''co-1''" freshId 1000 noTruckDb "''co-1''"]
  show ?thesis
    by (simp add: noTruckDb_def scenarioA_def emptyDb_def sampleDelivery_def sampleTruck_def)
qed

section \<open>Properties of the handshake and the relay rule\<close>

lemma find_SomeD: "find P xs = Some x \<Longrightarrow> P x \<and> x \<in> set xs"
  by (auto simp: find_Some_iff)

lemma routeTruckOwner_own_truck:
  assumes "routeTruckOwner d rid = Some (t, u)"
  shows "ownerId t = user_id u"
    and "\<exists>r. findRoute d rid = Some r \<and> route_truckId r = truck_id t"
  using assms
  by (auto simp: routeTruckOwner_def findRoute_def findTruck_def findUser_def
           split: option.splits dest!: find_SomeD)

lemma handshake_answer:
  assumes "findOpportunity d oid = Some opp"
    and "routeTruckOwner d (route1Id opp) = Some side1"
    and "routeTruckOwner d (route2Id opp) = Some side2"
    and "driverRelayRule side1 side2 = (long, short, master)"
  shows "handleHandshake d oid =
     (Inr (user_name long, user_name short),
      (updateOpportunity d oid (\<lambda>p. p\<lparr>opp_status := ''COMPLETED''\<rparr>))\<lparr>deliveries :=
          map (\<lambda>x. if optimizedRouteId x = Some (route2Id opp)
                    then x\<lparr>delivery_truckId := Some master,
                           delivery_driverId := Some (user_id long),
                           delivery_status := ''ABSORPTION_TRANSFERRED''\<rparr>
                    else x) (deliveries d)\<rparr>,
      [AbsorptionCompletedEvent oid (user_name long)])"
  using assms by (simp add: handleHandshake_def Let_def updateOpportunity_def)

text \<open>
  Claim C5. The workload of a driver is the distance driven plus the hours worked, added
  in double precision, a missing value counting as 0; it is never \<^verbatim>\<open>NaN\<close>. The relay rule
  depends on the two drivers through their workloads only: when the workload of driver1
  is greater than or equal to that of driver2, driver1 is the long-haul driver, driver2
  the short-haul driver and the truck of route1 the master truck; otherwise driver2 is
  the long-haul driver, driver1 the short-haul driver and the truck of route2 the master
  truck. Equal workloads go to driver1, and for finite workloads the comparison is the
  one of the two doubles. The truck loaded with a route is the route's truck and the
  driver loaded with it is that truck's owner, so the master truck is the long-haul
  driver's own truck. Whenever the opportunity and both sides can be loaded, the handler
  answers with the names the rule gives.
\<close>

theorem driverRelayRule_by_workload:
  "workload driver =
     jsAdd (Num (case totalDistanceKm driver of None \<Rightarrow> 0 | Some km \<Rightarrow> km))
           (Num (case totalHoursWorked driver of None \<Rightarrow> 0 | Some h \<Rightarrow> h)) \<and>
   workload driver \<noteq> NaN \<and>
   (jsLe (workload driver2) (workload driver1) \<longrightarrow>
      driverRelayRule (truck1, driver1) (truck2, driver2) = (driver1, driver2, truck_id truck1)) \<and>
   (\<not> jsLe (workload driver2) (workload driver1) \<longrightarrow>
      driverRelayRule (truck1, driver1) (truck2, driver2) = (driver2, driver1, truck_id truck2)) \<and>
   (workload driver1 = workload driver2 \<longrightarrow>
      driverRelayRule (truck1, driver1) (truck2, driver2) = (driver1, driver2, truck_id truck1)) \<and>
   (workload driver1 = Num x \<and> workload driver2 = Num y \<longrightarrow>
      driverRelayRule (truck1, driver1) (truck2, driver2) =
        (if x \<ge> y then (driver1, driver2, truck_id truck1)
         else (driver2, driver1, truck_id truck2))) \<and>
   (routeTruckOwner d rid = Some (truck, owner) \<longrightarrow>
      ownerId truck = user_id owner \<and>
      (\<exists>r. findRoute d rid = Some r \<and> route_truckId r = truck_id truck)) \<and>
   (findOpportunity d oid = Some opp \<and>
    routeTruckOwner d (route1Id opp) = Some (truck1, driver1) \<and>
    routeTruckOwner d (route2Id opp) = Some (truck2, driver2) \<longrightarrow>
      fst (handleHandshake d oid) =
        Inr (if jsLe (workload driver2) (workload driver1)
             then (user_name driver1, user_name driver2)
             else (user_name driver2, user_name driver1)))"
proof (intro conjI impI)
  show "workload driver =
     jsAdd (Num (case totalDistanceKm driver of None \<Rightarrow> 0 | Some km \<Rightarrow> km))
           (Num (case totalHoursWorked driver of None \<Rightarrow> 0 | Some h \<Rightarrow> h))"
    by (simp add: workload_def orZero_def del: jsAdd.simps)
next
  show "workload driver \<noteq> NaN"
    unfolding workload_def by (rule jsAdd_Num_not_NaN) simp
next
  assume "jsLe (workload driver2) (workload driver1)"
  then show "driverRelayRule (truck1, driver1) (truck2, driver2) = (driver1, driver2, truck_id truck1)"
    by (simp add: driverRelayRule_def)
next
  assume "\<not> jsLe (workload driver2) (workload driver1)"
  then show "driverRelayRule (truck1, driver1) (truck2, driver2) = (driver2, driver1, truck_id truck2)"
    by (simp add: driverRelayRule_def)
next
  assume e: "workload driver1 = workload driver2"
  have "workload driver2 \<noteq> NaN"
    unfolding workload_def by (rule jsAdd_Num_not_NaN) simp
  then have "jsLe (workload driver2) (workload driver2)"
    by (cases "workload driver2") simp_all
  with e show "driverRelayRule (truck1, driver1) (truck2, driver2) = (driver1, driver2, truck_id truck1)"
    by (simp add: driverRelayRule_def)
next
  assume "workload driver1 = Num x \<and> workload driver2 = Num y"
  then show "driverRelayRule (truck1, driver1) (truck2, driver2) =
        (if x \<ge> y then (driver1, driver2, truck_id truck1)
         else (driver2, driver1, truck_id truck2))"
    by (simp add: driverRelayRule_def)
next
  assume r: "routeTruckOwner d rid = Some (truck, owner)"
  from routeTruckOwner_own_truck[OF r]
  show "ownerId truck = user_id owner"
    and "\<exists>r. findRoute d rid = Some r \<and> route_truckId r = truck_id truck"
    by simp_all
next
  assume h: "findOpportunity d oid = Some opp \<and>
    routeTruckOwner d (route1Id opp) = Some (truck1, driver1) \<and>
    routeTruckOwner d (route2Id opp) = Some (truck2, driver2)"
  obtain long short master where
    rule: "driverRelayRule (truck1, driver1) (truck2, driver2) = (long, short, master)"
    by (cases "driverRelayRule (truck1, driver1) (truck2, driver2)") auto
  from h rule have "fst (handleHandshake d oid) = Inr (user_name long, user_name short)"
    by (simp add: handshake_answer)
  moreover from rule have "(long, short) = (if jsLe (workload driver2) (workload driver1)
             then (driver1, driver2) else (driver2, driver1))"
    by (auto simp: driverRelayRule_def split: if_splits)
  ultimately show "fst (handleHandshake d oid) =
        Inr (if jsLe (workload driver2) (workload driver1)
             then (user_name driver1, user_name driver2)
             else (user_name driver2, user_name driver1))"
    by (auto split: if_splits)
qed

lemma handshakeDb_find:
  "findOpportunity (handshakeDb w1 w2) ''opp-1'' = Some (sampleOpportunity ''opp-1'' ''BOTH_ACCEPTED'')"
  by (simp add: findOpportunity_def handshakeDb_def emptyDb_def sampleOpportunity_def)

lemma handshakeDb_sides:
  "routeTruckOwner (handshakeDb w1 w2) ''route-1'' =
     Some (sampleTruck ''truck-1'' ''driver-1'' (Some 10) (Some 10),
           sampleUser ''driver-1'' ''Asha'' (Some w1) None)"
  "routeTruckOwner (handshakeDb w1 w2) ''route-2'' =
     Some (sampleTruck ''truck-2'' ''driver-2'' (Some 10) (Some 10),
           sampleUser ''driver-2'' ''Bala'' (Some w2) None)"
  by (simp_all add: routeTruckOwner_def findRoute_def findTruck_def findUser_def handshakeDb_def
        emptyDb_def sampleRoute_def sampleTruck_def sampleUser_def)

lemma sample_workloads:
  "workload (sampleUser ''driver-1'' ''Asha'' (Some 10) (Some 5)) = Num 15"
  "workload (sampleUser ''driver-2'' ''Bala'' (Some 3) (Some 2)) = Num 5"
  "workload (sampleUser ''driver-1'' ''Asha'' (Some 4) (Some 1)) = Num 5"
  "workload (sampleUser ''driver-2'' ''Bala'' (Some 5) None) = Num 5"
  "workload (sampleUser ''driver-1'' ''Asha'' (Some 1) None) = Num 1"
  "workload (sampleUser ''driver-1'' ''Asha'' (Some (2 ^ 53)) None) = Num (2 ^ 53)"
  "workload (sampleUser ''driver-2'' ''Bala'' (Some (2 ^ 53)) (Some 1)) = Num (2 ^ 53)"
  "workload (sampleUser ''driver-1'' ''Asha'' (Some 50) None) = Num 50"
  "workload (sampleUser ''driver-2'' ''Bala'' (Some 20) None) = Num 20"
  "workload (sampleUser ''driver-1'' ''Asha'' (Some 20) None) = Num 20"
  "workload (sampleUser ''driver-2'' ''Bala'' (Some 50) None) = Num 50"
  by code_simp+

theorem driverRelayRule_by_workload_witness:
  "workload (sampleUser ''driver-1'' ''Asha'' (Some 10) (Some 5)) = Num 15 \<and>
   workload (sampleUser ''driver-2'' ''Bala'' (Some 3) (Some 2)) = Num 5 \<and>
   driverRelayRule (sampleTruck ''truck-1'' ''driver-1'' (Some 10) (Some 10),
                    sampleUser ''driver-1'' ''Asha'' (Some 10) (Some 5))
                   (sampleTruck ''truck-2'' ''driver-2'' (Some 10) (Some 10),
                    sampleUser ''driver-2'' ''Bala'' (Some 3) (Some 2))
     = (sampleUser ''driver-1'' ''Asha'' (Some 10) (Some 5),
        sampleUser ''driver-2'' ''Bala'' (Some 3) (Some 2), ''truck-1'') \<and>
   workload (sampleUser ''driver-1'' ''Asha'' (Some 4) (Some 1))
     = workload (sampleUser ''driver-2'' ''Bala'' (Some 5) None) \<and>
   driverRelayRule (sampleTruck ''truck-1'' ''driver-1'' (Some 10) (Some 10),
                    sampleUser ''driver-1'' ''Asha'' (Some 4) (Some 1))
                   (sampleTruck ''truck-2'' ''driver-2'' (Some 10) (Some 10),
                    sampleUser ''driver-2'' ''Bala'' (Some 5) None)
     = (sampleUser ''driver-1'' ''Asha'' (Some 4) (Some 1),
        sampleUser ''driver-2'' ''Bala'' (Some 5) None, ''truck-1'') \<and>
   workload (sampleUser ''driver-1'' ''Asha'' (Some 1) None) = Num 1 \<and>
   \<not> jsLe (workload (sampleUser ''driver-2'' ''Bala'' (Some 3) (Some 2)))
           (workload (sampleUser ''driver-1'' ''Asha'' (Some 1) None)) \<and>
   driverRelayRule (sampleTruck ''truck-1'' ''driver-1'' (Some 10) (Some 10),
                    sampleUser ''driver-1'' ''Asha'' (Some 1) None)
                   (sampleTruck ''truck-2'' ''driver-2'' (Some 10) (Some 10),
                    sampleUser ''driver-2'' ''Bala'' (Some 3) (Some 2))
     = (sampleUser ''driver-2'' ''Bala'' (Some 3) (Some 2),
        sampleUser ''driver-1'' ''Asha'' (Some 1) None, ''truck-2'') \<and>
   workload (sampleUser ''driver-1'' ''Asha'' (Some (2 ^ 53)) None) = Num (2 ^ 53) \<and>
   workload (sampleUser ''driver-2'' ''Bala'' (Some (2 ^ 53)) (Some 1)) = Num (2 ^ 53) \<and>
   driverRelayRule (sampleTruck ''truck-1'' ''driver-1'' (Some 10) (Some 10),
                    sampleUser ''driver-1'' ''Asha'' (Some (2 ^ 53)) None)
                   (sampleTruck ''truck-2'' ''driver-2'' (Some 10) (Some 10),
                    sampleUser ''driver-2'' ''Bala'' (Some (2 ^ 53)) (Some 1))
     = (sampleUser ''driver-1'' ''Asha'' (Some (2 ^ 53)) None,
        sampleUser ''driver-2'' ''Bala'' (Some (2 ^ 53)) (Some 1), ''truck-1'') \<and>
   routeTruckOwner (handshakeDb 50 20) ''route-1'' =
     Some (sampleTruck ''truck-1'' ''driver-1'' (Some 10) (Some 10),
           sampleUser ''driver-1'' ''Asha'' (Some 50) None) \<and>
   ownerId (sampleTruck ''truck-1'' ''driver-1'' (Some 10) (Some 10))
     = user_id (sampleUser ''driver-1'' ''Asha'' (Some 50) None) \<and>
   findOpportunity (handshakeDb 50 20) ''opp-1''
     = Some (sampleOpportunity ''opp-1'' ''BOTH_ACCEPTED'') \<and>
   fst (handleHandshake (handshakeDb 50 20) ''opp-1'') = Inr (''Asha'', ''Bala'')"
proof -
  let ?t1 = "sampleTruck ''truck-1'' ''driver-1'' (Some 10) (Some 10)"
  let ?t2 = "sampleTruck ''truck-2'' ''driver-2'' (Some 10) (Some 10)"
  have ids: "truck_id ?t1 = ''truck-1''" "truck_id ?t2 = ''truck-2''"
    by (simp_all add: sampleTruck_def)
  have names: "user_name (sampleUser ''driver-1'' ''Asha'' (Some 50) None) = ''Asha''"
    "user_name (sampleUser ''driver-2'' ''Bala'' (Some 20) None) = ''Bala''"
    by (simp_all add: sampleUser_def)
  have routes: "route1Id (sampleOpportunity ''opp-1'' ''BOTH_ACCEPTED'') = ''route-1''"
    "route2Id (sampleOpportunity ''opp-1'' ''BOTH_ACCEPTED'') = ''route-2''"
    by (simp_all add: sampleOpportunity_def)
  let ?db = "handshakeDb 50 20"
  let ?opp = "sampleOpportunity ''opp-1'' ''BOTH_ACCEPTED''"
  have wa: "jsLe (workload (sampleUser ''driver-2'' ''Bala'' (Some 3) (Some 2)))
                 (workload (sampleUser ''driver-1'' ''Asha'' (Some 10) (Some 5)))"
    and wb: "workload (sampleUser ''driver-1'' ''Asha'' (Some 4) (Some 1))
              = workload (sampleUser ''driver-2'' ''Bala'' (Some 5) None)"
    and wc: "\<not> jsLe (workload (sampleUser ''driver-2'' ''Bala'' (Some 3) (Some 2)))
                   (workload (sampleUser ''driver-1'' ''Asha'' (Some 1) None))"
    and wd: "jsLe (workload (sampleUser ''driver-2'' ''Bala'' (Some 20) None))
                  (workload (sampleUser ''driver-1'' ''Asha'' (Some 50) None))"
    and we: "(2::real) ^ 53 \<ge> 2 ^ 53"
    by (simp_all add: sample_workloads)
  have side1: "routeTruckOwner ?db (route1Id ?opp) =
       Some (?t1, sampleUser ''driver-1'' ''Asha'' (Some 50) None)"
    and side2: "routeTruckOwner ?db (route2Id ?opp) =
       Some (?t2, sampleUser ''driver-2'' ''Bala'' (Some 20) None)"
    by (simp_all only: routes handshakeDb_sides)
  have side1': "routeTruckOwner ?db ''route-1'' =
       Some (?t1, sampleUser ''driver-1'' ''Asha'' (Some 50) None)"
    by (rule handshakeDb_sides)
  have found: "findOpportunity ?db ''opp-1'' = Some ?opp"
    by (rule handshakeDb_find)
  from wa driverRelayRule_by_workload[where
          ?driver1.0 = "sampleUser ''driver-1'' ''Asha'' (Some 10) (Some 5)"
          and ?driver2.0 = "sampleUser ''driver-2'' ''Bala'' (Some 3) (Some 2)"
          and ?truck1.0 = ?t1 and ?truck2.0 = ?t2]
  have r1: "driverRelayRule (?t1, sampleUser ''driver-1'' ''Asha'' (Some 10) (Some 5))
                            (?t2, sampleUser ''driver-2'' ''Bala'' (Some 3) (Some 2))
     = (sampleUser ''driver-1'' ''Asha'' (Some 10) (Some 5),
        sampleUser ''driver-2'' ''Bala'' (Some 3) (Some 2), truck_id ?t1)"
    by blast
  from wb driverRelayRule_by_workload[where
          ?driver1.0 = "sampleUser ''driver-1'' ''Asha'' (Some 4) (Some 1)"
          and ?driver2.0 = "sampleUser ''driver-2'' ''Bala'' (Some 5) None"
          and ?truck1.0 = ?t1 and ?truck2.0 = ?t2]
  have r2: "driverRelayRule (?t1, sampleUser ''driver-1'' ''Asha'' (Some 4) (Some 1))
                            (?t2, sampleUser ''driver-2'' ''Bala'' (Some 5) None)
     = (sampleUser ''driver-1'' ''Asha'' (Some 4) (Some 1),
        sampleUser ''driver-2'' ''Bala'' (Some 5) None, truck_id ?t1)"
    by blast
  from wc driverRelayRule_by_workload[where
          ?driver1.0 = "sampleUser ''driver-1'' ''Asha'' (Some 1) None"
          and ?driver2.0 = "sampleUser ''driver-2'' ''Bala'' (Some 3) (Some 2)"
          and ?truck1.0 = ?t1 and ?truck2.0 = ?t2]
  have r3: "driverRelayRule (?t1, sampleUser ''driver-1'' ''Asha'' (Some 1) None)
                            (?t2, sampleUser ''driver-2'' ''Bala'' (Some 3) (Some 2))
     = (sampleUser ''driver-2'' ''Bala'' (Some 3) (Some 2),
        sampleUser ''driver-1'' ''Asha'' (Some 1) None, truck_id ?t2)"
    by blast
  from sample_workloads(6,7) driverRelayRule_by_workload[where
          ?driver1.0 = "sampleUser ''driver-1'' ''Asha'' (Some (2 ^ 53)) None"
          and ?driver2.0 = "sampleUser ''driver-2'' ''Bala'' (Some (2 ^ 53)) (Some 1)"
          and ?truck1.0 = ?t1 and ?truck2.0 = ?t2 and x = "2 ^ 53" and y = "2 ^ 53"]
  have "driverRelayRule (?t1, sampleUser ''driver-1'' ''Asha'' (Some (2 ^ 53)) None)
                            (?t2, sampleUser ''driver-2'' ''Bala'' (Some (2 ^ 53)) (Some 1))
     = (if (2::real) ^ 53 \<ge> 2 ^ 53
        then (sampleUser ''driver-1'' ''Asha'' (Some (2 ^ 53)) None,
              sampleUser ''driver-2'' ''Bala'' (Some (2 ^ 53)) (Some 1), truck_id ?t1)
        else (sampleUser ''driver-2'' ''Bala'' (Some (2 ^ 53)) (Some 1),
              sampleUser ''driver-1'' ''Asha'' (Some (2 ^ 53)) None, truck_id ?t2))"
    by blast
  with we have r4: "driverRelayRule (?t1, sampleUser ''driver-1'' ''Asha'' (Some (2 ^ 53)) None)
                            (?t2, sampleUser ''driver-2'' ''Bala'' (Some (2 ^ 53)) (Some 1))
     = (sampleUser ''driver-1'' ''Asha'' (Some (2 ^ 53)) None,
        sampleUser ''driver-2'' ''Bala'' (Some (2 ^ 53)) (Some 1), truck_id ?t1)"
    by (simp only: if_True)
  note inst = driverRelayRule_by_workload[where
          ?driver1.0 = "sampleUser ''driver-1'' ''Asha'' (Some 50) None"
          and ?driver2.0 = "sampleUser ''driver-2'' ''Bala'' (Some 20) None"
          and ?truck1.0 = ?t1 and ?truck2.0 = ?t2
          and d = ?db and rid = "''route-1''" and truck = ?t1
          and owner = "sampleUser ''driver-1'' ''Asha'' (Some 50) None"
          and oid = "''opp-1''" and opp = ?opp]
  from inst side1'
  have own: "ownerId ?t1 = user_id (sampleUser ''driver-1'' ''Asha'' (Some 50) None)"
    by blast
  from inst found side1 side2
  have "fst (handleHandshake ?db ''opp-1'') =
        Inr (if jsLe (workload (sampleUser ''driver-2'' ''Bala'' (Some 20) None))
                     (workload (sampleUser ''driver-1'' ''Asha'' (Some 50) None))
             then (user_name (sampleUser ''driver-1'' ''Asha'' (Some 50) None),
                   user_name (sampleUser ''driver-2'' ''Bala'' (Some 20) None))
             else (user_name (sampleUser ''driver-2'' ''Bala'' (Some 20) None),
                   user_name (sampleUser ''driver-1'' ''Asha'' (Some 50) None)))"
    by blast
  with wd have answer: "fst (handleHandshake ?db ''opp-1'') = Inr (''Asha'', ''Bala'')"
    by (simp only: if_True names)
  note r1' = r1[unfolded ids] and r2' = r2[unfolded ids] and r3' = r3[unfolded ids]
    and r4' = r4[unfolded ids]
  from sample_workloads(1,2) r1' wb r2' sample_workloads(5) wc r3' sample_workloads(6,7) r4'
    side1' own found answer
  show ?thesis
    by (intro conjI)
qed

lemma handshake_run_route2:
  "handleHandshake (handshakeDb 20 50) ''opp-1'' =
     (Inr (''Bala'', ''Asha''),
      (handshakeDb 20 50)\<lparr>
         absorptionOpportunities := [sampleOpportunity ''opp-1'' ''COMPLETED''],
         deliveries := [routedDelivery ''d-1'' ''route-1'' ''truck-1'' ''driver-1'',
                        (routedDelivery ''d-2'' ''route-2'' ''truck-2'' ''driver-2'')\<lparr>
                           delivery_status := ''ABSORPTION_TRANSFERRED''\<rparr>]\<rparr>,
      [AbsorptionCompletedEvent ''opp-1'' ''Bala''])"
  by code_simp

text \<open>
  Claim C2. The claim says that the handshake marks the opportunity COMPLETED and moves
  every delivery of the losing route, the one whose driver has the smaller workload, to the
  winning driver's truck and driver with the status ABSORPTION_TRANSFERRED, whichever
  driver wins. The handler always rewrites the deliveries of route2 (\<open>handshake_answer\<close>).
  When route1's driver wins this is the claim (\<open>handshake_route1_wins\<close>). On the store
  below route2's driver wins, with workload 50 against 20: the opportunity becomes
  COMPLETED, the delivery of the losing route1 stays on truck-1 with driver-1 in its old
  status, and the delivery of the winning route2 is marked ABSORPTION_TRANSFERRED on the
  truck and driver it already had.
\<close>

theorem handshake_route2_wins:
  "workload (sampleUser ''driver-1'' ''Asha'' (Some 20) None) = Num 20 \<and>
   workload (sampleUser ''driver-2'' ''Bala'' (Some 50) None) = Num 50 \<and>
   handleHandshake (handshakeDb 20 50) ''opp-1'' =
     (Inr (''Bala'', ''Asha''),
      (handshakeDb 20 50)\<lparr>
         absorptionOpportunities := [sampleOpportunity ''opp-1'' ''COMPLETED''],
         deliveries := [routedDelivery ''d-1'' ''route-1'' ''truck-1'' ''driver-1'',
                        (routedDelivery ''d-2'' ''route-2'' ''truck-2'' ''driver-2'')\<lparr>
                           delivery_status := ''ABSORPTION_TRANSFERRED''\<rparr>]\<rparr>,
      [AbsorptionCompletedEvent ''opp-1'' ''Bala''])"
  by (simp only: sample_workloads handshake_run_route2)

lemma handshake_route1_wins:
  "handleHandshake (handshakeDb 50 20) ''opp-1'' =
     (Inr (''Asha'', ''Bala''),
      (handshakeDb 50 20)\<lparr>
         absorptionOpportunities := [sampleOpportunity ''opp-1'' ''COMPLETED''],
         deliveries := [routedDelivery ''d-1'' ''route-1'' ''truck-1'' ''driver-1'',
                        (routedDelivery ''d-2'' ''route-2'' ''truck-1'' ''driver-1'')\<lparr>
                           delivery_status := ''ABSORPTION_TRANSFERRED''\<rparr>]\<rparr>,
      [AbsorptionCompletedEvent ''opp-1'' ''Asha''])"
  by code_simp

section \<open>Properties of the proximity detection\<close>

lemma sqlDistance_equator:
  assumes "0 \<le> x" "x \<le> 180"
  shows "sqlDistance 0 0 0 x = 6371 * (x * pi / 180)"
proof -
  have "0 \<le> x * pi / 180" using assms pi_gt_zero by simp
  moreover have "x * pi / 180 \<le> pi"
  proof -
    have "x * pi \<le> 180 * pi" using assms pi_gt_zero by (intro mult_right_mono) simp_all
    then show ?thesis by simp
  qed
  ultimately have "arccos (cos (x * pi / 180)) = x * pi / 180"
    by (rule arccos_cos)
  then have "6371 * arccos (cos (x * pi / 180)) = 6371 * (x * pi / 180)"
    by (simp only:)
  moreover have "sqlDistance 0 0 0 x = 6371 * arccos (cos (x * pi / 180))"
    by (simp add: sqlDistance_def radians_def)
  ultimately show ?thesis by (simp only:)
qed

lemma hub_distances:
  "sqlDistance 0 0 (latitude hubFar) (longitude hubFar) < 5"
  "sqlDistance 0 0 (latitude hubNear) (longitude hubNear) < 5"
  "sqlDistance 0 0 (latitude hubNear) (longitude hubNear)
     < sqlDistance 0 0 (latitude hubFar) (longitude hubFar)"
  using pi_less_4 pi_gt_zero
  by (simp_all add: hubFar_def hubNear_def sqlDistance_equator)

lemma truckB_distance:
  "sqlDistance 0 0 0 (1 / 100) < 5" "sqlDistance 0 0 0 0 < 5"
  using pi_less_4 pi_gt_zero by (simp_all add: sqlDistance_equator)

lemma detectDb_nearbyTrucks:
  "nearbyTrucksQuery (detectDb hubs) ''truck-A'' 0 0 = [(''truck-B'', sqlDistance 0 0 0 (1 / 100))]"
  by (simp add: nearbyTrucksQuery_def detectDb_def emptyDb_def truckA_def truckB_def
        sampleTruck_def truckB_distance)

lemma detectDb_hubs:
  "nearbyHubsQuery (detectDb [hubFar, hubNear]) 0 0 = [hubFar]"
  by (simp add: nearbyHubsQuery_def detectDb_def emptyDb_def hub_distances)

lemma detectDb_lookups:
  "findTruck (detectDb hubs) ''truck-A'' = Some truckA"
  "findTruck (detectDb hubs) ''truck-B'' = Some truckB"
  "activeRoutes (detectDb hubs) ''truck-A'' = [sampleRoute ''route-A'' ''truck-A'' ''driver-1'']"
  "activeRoutes (detectDb hubs) ''truck-B'' = [sampleRoute ''route-B'' ''truck-B'' ''driver-2'']"
  "truck_id truckA = ''truck-A''" "truck_id truckB = ''truck-B''"
  by (simp_all add: findTruck_def activeRoutes_def detectDb_def emptyDb_def truckA_def truckB_def
        sampleTruck_def sampleRoute_def)

lemma detectDb_capacity:
  "orZero (maxWeight truckA) - orZero (truck_currentWeight truckA) \<ge> orZero (truck_currentWeight truckB)"
  "orZero (maxVolume truckA) - orZero (truck_currentVolume truckA) \<ge> orZero (truck_currentVolume truckB)"
  by (simp_all add: orZero_def truckA_def truckB_def sampleTruck_def)

text \<open>
  Claim C8. The claim says that the hub attached to the created opportunity is the nearest
  hub within 5 km of the reported position, that a candidate is skipped when no hub lies
  within 5 km, and that \<^verbatim>\<open>detect\<close> returns none when a feasible candidate exists but no hub
  is within 5 km. The last two hold (\<open>detect_no_hub_none\<close>, \<open>detect_no_hub_scenario\<close>).
  The hub attached is the first hub within 5 km in storage order
  (\<open>detect_hub_first_within\<close>): the query stops at one row and does not order the rows by
  distance. On the store below the first hub stored is about 3.3 km away and the second
  about 1.1 km; the opportunity's \<^verbatim>\<open>nearestHubId\<close> is the first.
\<close>

theorem detect_attaches_first_hub_not_nearest:
  "map_option nearestHubId
     (fst (detectAbsorptionOpportunity freshId 1000 (detectDb [hubFar, hubNear]) ''truck-A'' 0 0))
     = Some ''hub-far'' \<and>
   hubNear \<in> set (virtualHubs (detectDb [hubFar, hubNear])) \<and>
   sqlDistance 0 0 (latitude hubNear) (longitude hubNear) < 5 \<and>
   sqlDistance 0 0 (latitude hubNear) (longitude hubNear)
     < sqlDistance 0 0 (latitude hubFar) (longitude hubFar)"
proof -
  have "map_option nearestHubId
     (fst (detectAbsorptionOpportunity freshId 1000 (detectDb [hubFar, hubNear]) ''truck-A'' 0 0))
     = Some ''hub-far''"
    using detectDb_capacity
    by (simp add: detectAbsorptionOpportunity_def detectDb_lookups detectDb_nearbyTrucks
          detectDb_hubs Let_def)
       (simp add: hubFar_def)
  moreover have "hubNear \<in> set (virtualHubs (detectDb [hubFar, hubNear]))"
    by (simp add: detectDb_def emptyDb_def)
  ultimately show ?thesis using hub_distances by simp
qed

lemma detectLoop_no_hub:
  "nearbyHubsQuery d lat lng = [] \<Longrightarrow> detectLoop gen now d tA rA lat lng cands = (None, d, [])"
  by (induction cands) (simp_all split: option.splits list.splits)

lemma detect_no_hub_none:
  assumes "\<forall>h \<in> set (virtualHubs d). \<not> sqlDistance lat lng (latitude h) (longitude h) < 5"
  shows "detectAbsorptionOpportunity gen now d truckId lat lng = (None, d, [])"
proof -
  from assms have "nearbyHubsQuery d lat lng = []"
    by (simp add: nearbyHubsQuery_def filter_empty_conv)
  then show ?thesis
    by (simp add: detectAbsorptionOpportunity_def detectLoop_no_hub split: option.splits list.splits)
qed

lemma detectLoop_hub:
  "detectLoop gen now d tA rA lat lng cands = (Some opp, d', ev) \<Longrightarrow>
     nearbyHubsQuery d lat lng \<noteq> [] \<and> nearestHubId opp = hub_id (hd (nearbyHubsQuery d lat lng))"
  by (induction cands) (auto simp: Let_def split: option.splits list.splits if_splits)

lemma detect_hub_first_within:
  assumes "detectAbsorptionOpportunity gen now d truckId lat lng = (Some opp, d', ev)"
  shows "\<exists>h rest. filter (\<lambda>h. sqlDistance lat lng (latitude h) (longitude h) < 5) (virtualHubs d) = h # rest
            \<and> nearestHubId opp = hub_id h"
proof -
  from assms obtain tA rA where
    "detectLoop gen now d tA rA lat lng (nearbyTrucksQuery d truckId lat lng) = (Some opp, d', ev)"
    by (auto simp: detectAbsorptionOpportunity_def split: option.splits list.splits)
  from detectLoop_hub[OF this]
  have ne: "nearbyHubsQuery d lat lng \<noteq> []"
    and hub: "nearestHubId opp = hub_id (hd (nearbyHubsQuery d lat lng))" by simp_all
  let ?f = "filter (\<lambda>h. sqlDistance lat lng (latitude h) (longitude h) < 5) (virtualHubs d)"
  from ne obtain h rest where f: "?f = h # rest"
    by (cases ?f) (auto simp: nearbyHubsQuery_def)
  with hub have "nearestHubId opp = hub_id h" by (simp add: nearbyHubsQuery_def)
  with f show ?thesis by blast
qed

lemma detect_no_hub_scenario:
  "detectAbsorptionOpportunity freshId 1000 (detectDb []) ''truck-A'' 0 0 = (None, detectDb [], [])"
  by (rule detect_no_hub_none) (simp add: detectDb_def emptyDb_def)

end